theory Spec2Isabelle
  imports Main
begin

section \<open>Go errors\<close>

text \<open>
  An \<^verbatim>\<open>*azcore.ResponseError\<close> as far as the wrapper reads it: the \<^verbatim>\<open>StatusCode\<close> field,
  the text of \<^verbatim>\<open>Error()\<close>, and what \<^verbatim>\<open>io.ReadAll(RawResponse.Body)\<close> gives:
  \<open>Some\<close> of the body's text, or \<open>None\<close> when the read fails (the read error itself is
  dropped by the code). \<^verbatim>\<open>RawResponse\<close> is taken to be set, as the SDK's constructor
  sets it.
\<close>

datatype ResponseError =
  ResponseError (StatusCode: int) (ErrorText: string) (RawResponseBody: "string option")

text \<open>
  Go error values. \<open>ErrDeploymentNotFound\<close> is the package's sentinel
  (\<^verbatim>\<open>errors.New("deployment not found")\<close>, compared by identity, hence a constructor of
  its own). \<open>ErrorString\<close> is any other leaf error without an \<^verbatim>\<open>Unwrap\<close> method,
  \<open>Errorf msg e\<close> is \<^verbatim>\<open>fmt.Errorf(msg + "%w", e)\<close>, whose \<^verbatim>\<open>Unwrap\<close> gives \<open>e\<close>.
\<close>

datatype error =
    ErrDeploymentNotFound
  | ErrorString string
  | ResponseErr ResponseError
  | AzureDeploymentError string
  | Errorf string error

text \<open>
  Modelled from the spec: \<^verbatim>\<open>NewAzureDeploymentError\<close> is a function of the package that is
  not among the source files; the spec says of it only that errors are "re-wrapped". It is
  kept as the free constructor \<open>AzureDeploymentError\<close> holding the text it is given.
\<close>

definition NewAzureDeploymentError :: "string \<Rightarrow> error" where
  "NewAzureDeploymentError errorText = AzureDeploymentError errorText"

text \<open>
  \<^verbatim>\<open>errors.As(err, &responseErr)\<close> with a target of type \<^verbatim>\<open>*azcore.ResponseError\<close>: walk
  the \<^verbatim>\<open>Unwrap\<close> chain and give the first value of that type.
\<close>

fun errors_As :: "error \<Rightarrow> ResponseError option" where
  "errors_As (ResponseErr r) = Some r"
| "errors_As (Errorf msg e) = errors_As e"
| "errors_As ErrDeploymentNotFound = None"
| "errors_As (ErrorString s) = None"
| "errors_As (AzureDeploymentError s) = None"

section \<open>The deployments wrapper\<close>

subsection \<open>The SDK's types\<close>

type_synonym RawArmTemplate = string
type_synonym ArmParameters = "(string \<times> string) list"
type_synonym Tags = "(string \<times> string option) list"

text \<open>
  \<^verbatim>\<open>armresources.DeploymentExtended\<close> and \<^verbatim>\<open>armresources.WhatIfOperationResult\<close>: the
  wrapper hands them on without reading a field, so two of their fields stand for all.
\<close>

datatype DeploymentExtended = DeploymentExtended (DeploymentID: string) (DeploymentName: string)

datatype WhatIfOperationResult = WhatIfOperationResult (WhatIfStatus: string) (WhatIfChanges: "string list")

datatype DeploymentMode = DeploymentModeIncremental | DeploymentModeComplete

datatype DeploymentWhatIfSettings = DeploymentWhatIfSettings

record DeploymentProperties =
  Template :: RawArmTemplate
  Parameters :: ArmParameters
  Mode :: "DeploymentMode option"

record Deployment =
  Properties :: "DeploymentProperties option"
  Location :: "string option"
  Tags :: Tags

record DeploymentWhatIfProperties =
  WhatIfTemplate :: RawArmTemplate
  WhatIfParameters :: ArmParameters
  WhatIfMode :: "DeploymentMode option"
  WhatIfSettings :: "DeploymentWhatIfSettings option"

record DeploymentWhatIf =
  WhatIfProperties :: "DeploymentWhatIfProperties option"
  WhatIfLocation :: "string option"

text \<open>
  A Go slice is \<^verbatim>\<open>nil\<close> or holds elements; \<^verbatim>\<open>append(s, xs...)\<close> keeps a non-nil slice
  non-nil and leaves a nil slice nil when nothing is appended.
\<close>

datatype 'a slice = NilSlice | Slice "'a list"

fun elems :: "'a slice \<Rightarrow> 'a list" where
  "elems NilSlice = []"
| "elems (Slice xs) = xs"

fun append_slice :: "'a slice \<Rightarrow> 'a slice \<Rightarrow> 'a slice" where
  "append_slice (Slice xs) ys = Slice (xs @ elems ys)"
| "append_slice NilSlice ys = (if elems ys = [] then NilSlice else Slice (elems ys))"

text \<open>One page of a list response: its \<^verbatim>\<open>Value\<close> field.\<close>

datatype DeploymentListResult = DeploymentListResult (Value: "DeploymentExtended slice")

text \<open>
  A pager is the sequence of outcomes its \<^verbatim>\<open>NextPage\<close> calls give while \<^verbatim>\<open>More()\<close>
  holds; \<^verbatim>\<open>More()\<close> is false when the sequence is used up.
\<close>

type_synonym Pager = "(error + DeploymentListResult) list"

text \<open>A poller is what its \<^verbatim>\<open>PollUntilDone\<close> gives.\<close>

datatype 'a Poller = Poller (PollUntilDone: "error + 'a")

text \<open>
  The \<^verbatim>\<open>*armresources.DeploymentsClient\<close>: for each method the wrapper calls, what the SDK
  answers.
\<close>

record DeploymentsClient =
  sdkCalculateTemplateHash :: "RawArmTemplate \<Rightarrow> error + string"
  sdkNewListAtSubscriptionScopePager :: Pager
  sdkNewListByResourceGroupPager :: "string \<Rightarrow> Pager"
  sdkGetAtSubscriptionScope :: "string \<Rightarrow> error + DeploymentExtended"
  sdkGet :: "string \<Rightarrow> string \<Rightarrow> error + DeploymentExtended"
  sdkBeginCreateOrUpdateAtSubscriptionScope ::
    "string \<Rightarrow> Deployment \<Rightarrow> error + DeploymentExtended Poller"
  sdkBeginCreateOrUpdate ::
    "string \<Rightarrow> string \<Rightarrow> Deployment \<Rightarrow> error + DeploymentExtended Poller"
  sdkBeginWhatIfAtSubscriptionScope ::
    "string \<Rightarrow> DeploymentWhatIf \<Rightarrow> error + WhatIfOperationResult Poller"
  sdkBeginWhatIf ::
    "string \<Rightarrow> string \<Rightarrow> DeploymentWhatIf \<Rightarrow> error + WhatIfOperationResult Poller"
  sdkBeginDeleteAtSubscriptionScope :: "string \<Rightarrow> error + unit Poller"

text \<open>The requests the long-running operations send to the SDK, in the order sent.\<close>

datatype SdkCall =
    BeginCreateOrUpdateAtSubscriptionScope string Deployment
  | BeginCreateOrUpdate string string Deployment
  | BeginWhatIfAtSubscriptionScope string DeploymentWhatIf
  | BeginWhatIf string string DeploymentWhatIf
  | BeginDeleteAtSubscriptionScope string
  | CallPollUntilDone

subsection \<open>Operations\<close>

definition CalculateTemplateHash :: "DeploymentsClient \<Rightarrow> RawArmTemplate \<Rightarrow> error + string" where
  "CalculateTemplateHash ds template = sdkCalculateTemplateHash ds template"

text \<open>
  The loop of the two list operations: \<open>results\<close> is the accumulator, the pager's
  remaining outcomes are consumed one \<^verbatim>\<open>NextPage\<close> at a time. The Go pair
  \<^verbatim>\<open>(slice, error)\<close> is returned as it is, \<open>None\<close> being the nil error.
\<close>

fun listPages :: "DeploymentExtended slice \<Rightarrow> Pager \<Rightarrow> DeploymentExtended slice \<times> error option" where
  "listPages results [] = (results, None)"
| "listPages results (Inl err # pager) = (NilSlice, Some err)"
| "listPages results (Inr page # pager) = listPages (append_slice results (Value page)) pager"

definition ListSubscriptionDeployments ::
  "DeploymentsClient \<Rightarrow> DeploymentExtended slice \<times> error option" where
  "ListSubscriptionDeployments ds =
     listPages (Slice []) (sdkNewListAtSubscriptionScopePager ds)"

definition ListResourceGroupDeployments ::
  "DeploymentsClient \<Rightarrow> string \<Rightarrow> DeploymentExtended slice \<times> error option" where
  "ListResourceGroupDeployments ds resourceGroupName =
     listPages (Slice []) (sdkNewListByResourceGroupPager ds resourceGroupName)"

definition GetSubscriptionDeployment ::
  "DeploymentsClient \<Rightarrow> string \<Rightarrow> error + DeploymentExtended" where
  "GetSubscriptionDeployment ds deploymentName =
     (case sdkGetAtSubscriptionScope ds deploymentName of
        Inl err \<Rightarrow>
          (case errors_As err of
             Some errDetails \<Rightarrow>
               if StatusCode errDetails = 404 then Inl ErrDeploymentNotFound
               else Inl (Errorf ''getting deployment from subscription: '' err)
           | None \<Rightarrow> Inl (Errorf ''getting deployment from subscription: '' err))
      | Inr deployment \<Rightarrow> Inr deployment)"

definition GetResourceGroupDeployment ::
  "DeploymentsClient \<Rightarrow> string \<Rightarrow> string \<Rightarrow> error + DeploymentExtended" where
  "GetResourceGroupDeployment ds resourceGroupName deploymentName =
     (case sdkGet ds resourceGroupName deploymentName of
        Inl err \<Rightarrow>
          (case errors_As err of
             Some errDetails \<Rightarrow>
               if StatusCode errDetails = 404 then Inl ErrDeploymentNotFound
               else Inl (Errorf ''getting deployment from resource group: '' err)
           | None \<Rightarrow> Inl (Errorf ''getting deployment from resource group: '' err))
      | Inr deployment \<Rightarrow> Inr deployment)"

text \<open>
  \<^verbatim>\<open>createDeploymentError\<close>: an error that carries a response error becomes an Azure
  deployment error made from the response body, or from the error's own text when the body
  cannot be read; any other error is returned as it is.
\<close>

definition createDeploymentError :: "error \<Rightarrow> error" where
  "createDeploymentError err =
     (case errors_As err of
        Some responseErr \<Rightarrow>
          (case RawResponseBody responseErr of
             None \<Rightarrow> NewAzureDeploymentError (ErrorText responseErr)
           | Some rawBody \<Rightarrow> NewAzureDeploymentError rawBody)
      | None \<Rightarrow> err)"

definition DeployToSubscription ::
  "DeploymentsClient \<Rightarrow> string \<Rightarrow> string \<Rightarrow> RawArmTemplate \<Rightarrow> ArmParameters \<Rightarrow> Tags
     \<Rightarrow> (error + DeploymentExtended) \<times> SdkCall list" where
  "DeployToSubscription ds location deploymentName armTemplate parameters tags =
     (let request = \<lparr>Properties = Some \<lparr>Template = armTemplate, Parameters = parameters,
                                        Mode = Some DeploymentModeIncremental\<rparr>,
                     Location = Some location, Tags = tags\<rparr>
      in case sdkBeginCreateOrUpdateAtSubscriptionScope ds deploymentName request of
           Inl err \<Rightarrow>
             (Inl (Errorf ''starting deployment to subscription: '' err),
              [BeginCreateOrUpdateAtSubscriptionScope deploymentName request])
         | Inr createFromTemplateOperation \<Rightarrow>
             (case PollUntilDone createFromTemplateOperation of
                Inl err \<Rightarrow>
                  Inl (Errorf ''deploying to subscription:\<newline>\<newline>Deployment Error Details:\<newline>''
                         (createDeploymentError err))
              | Inr deployResult \<Rightarrow> Inr deployResult,
              [BeginCreateOrUpdateAtSubscriptionScope deploymentName request, CallPollUntilDone]))"

definition DeployToResourceGroup ::
  "DeploymentsClient \<Rightarrow> string \<Rightarrow> string \<Rightarrow> RawArmTemplate \<Rightarrow> ArmParameters \<Rightarrow> Tags
     \<Rightarrow> (error + DeploymentExtended) \<times> SdkCall list" where
  "DeployToResourceGroup ds resourceGroup deploymentName armTemplate parameters tags =
     (let request = \<lparr>Properties = Some \<lparr>Template = armTemplate, Parameters = parameters,
                                        Mode = Some DeploymentModeIncremental\<rparr>,
                     Location = None, Tags = tags\<rparr>
      in case sdkBeginCreateOrUpdate ds resourceGroup deploymentName request of
           Inl err \<Rightarrow>
             (Inl (Errorf ''starting deployment to resource group: '' err),
              [BeginCreateOrUpdate resourceGroup deploymentName request])
         | Inr createFromTemplateOperation \<Rightarrow>
             (case PollUntilDone createFromTemplateOperation of
                Inl err \<Rightarrow>
                  Inl (Errorf ''deploying to resource group:\<newline>\<newline>Deployment Error Details:\<newline>''
                         (createDeploymentError err))
              | Inr deployResult \<Rightarrow> Inr deployResult,
              [BeginCreateOrUpdate resourceGroup deploymentName request, CallPollUntilDone]))"

definition WhatIfDeployToSubscription ::
  "DeploymentsClient \<Rightarrow> string \<Rightarrow> string \<Rightarrow> RawArmTemplate \<Rightarrow> ArmParameters
     \<Rightarrow> (error + WhatIfOperationResult) \<times> SdkCall list" where
  "WhatIfDeployToSubscription ds location deploymentName armTemplate parameters =
     (let request = \<lparr>WhatIfProperties =
                       Some \<lparr>WhatIfTemplate = armTemplate, WhatIfParameters = parameters,
                             WhatIfMode = Some DeploymentModeIncremental,
                             WhatIfSettings = Some DeploymentWhatIfSettings\<rparr>,
                     WhatIfLocation = Some location\<rparr>
      in case sdkBeginWhatIfAtSubscriptionScope ds deploymentName request of
           Inl err \<Rightarrow>
             (Inl (Errorf ''starting deployment to subscription: '' err),
              [BeginWhatIfAtSubscriptionScope deploymentName request])
         | Inr createFromTemplateOperation \<Rightarrow>
             (case PollUntilDone createFromTemplateOperation of
                Inl err \<Rightarrow>
                  Inl (Errorf ''deploying to subscription:\<newline>\<newline>Deployment Error Details:\<newline>''
                         (createDeploymentError err))
              | Inr deployResult \<Rightarrow> Inr deployResult,
              [BeginWhatIfAtSubscriptionScope deploymentName request, CallPollUntilDone]))"

definition WhatIfDeployToResourceGroup ::
  "DeploymentsClient \<Rightarrow> string \<Rightarrow> string \<Rightarrow> RawArmTemplate \<Rightarrow> ArmParameters
     \<Rightarrow> (error + WhatIfOperationResult) \<times> SdkCall list" where
  "WhatIfDeployToResourceGroup ds resourceGroup deploymentName armTemplate parameters =
     (let request = \<lparr>WhatIfProperties =
                       Some \<lparr>WhatIfTemplate = armTemplate, WhatIfParameters = parameters,
                             WhatIfMode = Some DeploymentModeIncremental,
                             WhatIfSettings = None\<rparr>,
                     WhatIfLocation = None\<rparr>
      in case sdkBeginWhatIf ds resourceGroup deploymentName request of
           Inl err \<Rightarrow>
             (Inl (Errorf ''starting deployment to resource group: '' err),
              [BeginWhatIf resourceGroup deploymentName request])
         | Inr createFromTemplateOperation \<Rightarrow>
             (case PollUntilDone createFromTemplateOperation of
                Inl err \<Rightarrow>
                  Inl (Errorf ''deploying to resource group:\<newline>\<newline>Deployment Error Details:\<newline>''
                         (createDeploymentError err))
              | Inr deployResult \<Rightarrow> Inr deployResult,
              [BeginWhatIf resourceGroup deploymentName request, CallPollUntilDone]))"

text \<open>\<^verbatim>\<open>DeleteSubscriptionDeployment\<close> returns only an error: \<open>None\<close> is the nil error.\<close>

definition DeleteSubscriptionDeployment ::
  "DeploymentsClient \<Rightarrow> string \<Rightarrow> error option \<times> SdkCall list" where
  "DeleteSubscriptionDeployment ds deploymentName =
     (case sdkBeginDeleteAtSubscriptionScope ds deploymentName of
        Inl err \<Rightarrow>
          (Some (Errorf ''starting to delete deployment: '' err),
           [BeginDeleteAtSubscriptionScope deploymentName])
      | Inr deleteDeploymentOperation \<Rightarrow>
          (case PollUntilDone deleteDeploymentOperation of
             Inl err \<Rightarrow> Some (Errorf ''deleting deployment operation: '' err)
           | Inr u \<Rightarrow> None,
           [BeginDeleteAtSubscriptionScope deploymentName, CallPollUntilDone]))"

subsection \<open>Conversion of deployment outputs\<close>

text \<open>
  A Go \<^verbatim>\<open>interface{}\<close> value as the SDK's JSON decoder builds it: the nil interface, a
  bool, a number (\<^verbatim>\<open>float64\<close> in Go; the conversion never reads it), a string, a slice,
  or a \<^verbatim>\<open>map[string]interface{}\<close>, given by its entries in the order a \<^verbatim>\<open>range\<close> loop
  visits them and read with \<open>index\<close>. A Go map holds each key once.
\<close>

datatype any =
    AnyNil
  | AnyBool bool
  | AnyNumber int
  | AnyString string
  | AnyArray "any list"
  | AnyMap "(string \<times> any) list"

text \<open>\<^verbatim>\<open>m[key]\<close> on a \<^verbatim>\<open>map[string]interface{}\<close>: the nil interface for a missing key.\<close>

definition index :: "(string \<times> any) list \<Rightarrow> string \<Rightarrow> any" where
  "index m key = (case map_of m key of Some v \<Rightarrow> v | None \<Rightarrow> AnyNil)"

text \<open>
  The unchecked type assertions \<^verbatim>\<open>x.(map[string]interface{})\<close> and \<^verbatim>\<open>x.(string)\<close>:
  \<open>None\<close> is the run-time panic.
\<close>

fun assertMap :: "any \<Rightarrow> (string \<times> any) list option" where
  "assertMap (AnyMap m) = Some m"
| "assertMap x = None"

fun assertString :: "any \<Rightarrow> string option" where
  "assertString (AnyString s) = Some s"
| "assertString x = None"

record AzCliDeploymentOutput =
  Type :: string
  OutputValue :: any

text \<open>
  A Go map variable: nil, or a map made by \<^verbatim>\<open>make\<close>. Storing into a nil map panics
  (\<open>None\<close>).
\<close>

datatype 'v gomap = NilMap | GoMap "string \<rightharpoonup> 'v"

definition make_map :: "nat \<Rightarrow> 'v gomap" where
  "make_map n = GoMap Map.empty"

fun store :: "'v gomap \<Rightarrow> string \<Rightarrow> 'v \<Rightarrow> 'v gomap option" where
  "store NilMap key v = None"
| "store (GoMap m) key v = Some (GoMap (m(key \<mapsto> v)))"

text \<open>The loop of \<^verbatim>\<open>CreateDeploymentOutput\<close> over the entries of \<^verbatim>\<open>castInput\<close>.\<close>

fun convertOutputs ::
  "AzCliDeploymentOutput gomap \<Rightarrow> (string \<times> any) list \<Rightarrow> AzCliDeploymentOutput gomap option" where
  "convertOutputs result [] = Some result"
| "convertOutputs result ((key, output) # rest) =
     (case assertMap output of
        None \<Rightarrow> None
      | Some innerValue \<Rightarrow>
          (case assertString (index innerValue ''type'') of
             None \<Rightarrow> None
           | Some ty \<Rightarrow>
               (case store result key \<lparr>Type = ty, OutputValue = index innerValue ''value''\<rparr> of
                  None \<Rightarrow> None
                | Some result' \<Rightarrow> convertOutputs result' rest)))"

definition CreateDeploymentOutput :: "any \<Rightarrow> AzCliDeploymentOutput gomap option" where
  "CreateDeploymentOutput rawOutputs =
     (if rawOutputs = AnyNil then Some (make_map 0)
      else case assertMap rawOutputs of
             None \<Rightarrow> None
           | Some castInput \<Rightarrow> convertOutputs (make_map (length castInput)) castInput)"

text \<open>
  The shape the conversion accepts, in the words of its description: a map from strings to
  maps that each hold a string under the key \<^verbatim>\<open>type\<close>; \<open>toOutput\<close> is the output made
  from one such inner map.
\<close>

fun hasStringType :: "any \<Rightarrow> bool" where
  "hasStringType (AnyMap inner) =
     (case map_of inner ''type'' of Some (AnyString ty) \<Rightarrow> True | _ \<Rightarrow> False)"
| "hasStringType x = False"

fun isOutputsMap :: "any \<Rightarrow> bool" where
  "isOutputsMap (AnyMap m) = list_all (\<lambda>kv. hasStringType (snd kv)) m"
| "isOutputsMap x = False"

fun toOutput :: "any \<Rightarrow> AzCliDeploymentOutput" where
  "toOutput (AnyMap inner) =
     \<lparr>Type = (case index inner ''type'' of AnyString ty \<Rightarrow> ty | _ \<Rightarrow> []),
      OutputValue = index inner ''value''\<rparr>"
| "toOutput x = \<lparr>Type = [], OutputValue = AnyNil\<rparr>"

section \<open>The kubectl wrapper\<close>

subsection \<open>The process runner\<close>

datatype RunResult = RunResult (ExitCode: int) (Stdout: string) (Stderr: string)

text \<open>
  Modelled from the spec: \<^verbatim>\<open>exec.RunArgs\<close>, its constructor \<^verbatim>\<open>NewRunArgs\<close> and its
  builder methods belong to the package \<^verbatim>\<open>pkg/exec\<close>, which is not among the source
  files; the spec calls it "a generic process runner" to which the wrapper hands assembled
  arguments. Each builder sets the field it is named after and \<^verbatim>\<open>AppendParams\<close> appends
  to the argument list. The field \<^verbatim>\<open>Cwd\<close> is \<open>RunCwd\<close> here, and the empty string
  when unset; an unset \<^verbatim>\<open>Env\<close> (a nil slice) and an unset \<^verbatim>\<open>StdIn\<close> (a nil reader)
  are \<open>None\<close>.
\<close>

record RunArgs =
  Cmd :: string
  Args :: "string list"
  RunCwd :: string
  Env :: "string list option"
  StdIn :: "string option"
  EnrichError :: bool

definition NewRunArgs :: "string \<Rightarrow> string list \<Rightarrow> RunArgs" where
  "NewRunArgs cmd args =
     \<lparr>Cmd = cmd, Args = args, RunCwd = [], Env = None, StdIn = None, EnrichError = False\<rparr>"

definition AppendParams :: "RunArgs \<Rightarrow> string list \<Rightarrow> RunArgs" where
  "AppendParams b params = b\<lparr>Args := Args b @ params\<rparr>"

definition WithCwd :: "RunArgs \<Rightarrow> string \<Rightarrow> RunArgs" where
  "WithCwd b cwd = b\<lparr>RunCwd := cwd\<rparr>"

definition WithEnv :: "RunArgs \<Rightarrow> string list \<Rightarrow> RunArgs" where
  "WithEnv b env = b\<lparr>Env := Some env\<rparr>"

definition WithStdIn :: "RunArgs \<Rightarrow> string \<Rightarrow> RunArgs" where
  "WithStdIn b input = b\<lparr>StdIn := Some input\<rparr>"

definition WithEnrichError :: "RunArgs \<Rightarrow> bool \<Rightarrow> RunArgs" where
  "WithEnrichError b enrichError = b\<lparr>EnrichError := enrichError\<rparr>"

text \<open>
  The \<^verbatim>\<open>exec.CommandRunner\<close> the client holds. \<open>history\<close> lists the commands handed to
  \<^verbatim>\<open>Run\<close> so far, oldest first; \<open>respond\<close> is the Go pair \<^verbatim>\<open>(RunResult, error)\<close>
  that running a command after those before it gives, \<open>None\<close> being the nil error.
  \<^verbatim>\<open>Run\<close> gives the outcome and records the command.
\<close>

record CommandRunner =
  respond :: "RunArgs list \<Rightarrow> RunArgs \<Rightarrow> RunResult \<times> error option"
  history :: "RunArgs list"

definition Run ::
  "CommandRunner \<Rightarrow> RunArgs \<Rightarrow> (RunResult \<times> error option) \<times> CommandRunner" where
  "Run runner args =
     (respond runner (history runner) args, runner\<lparr>history := history runner @ [args]\<rparr>)"

subsection \<open>What the wrapper reads from the operating system\<close>

text \<open>
  The outcomes of the calls that leave the package: \<^verbatim>\<open>getKubeConfigDir()\<close> and
  \<^verbatim>\<open>tools.ToolInPath\<close> (both of this repository, neither among the source files, so taken
  as given), \<^verbatim>\<open>os.Getenv\<close>, and \<^verbatim>\<open>envsubst.Eval\<close> of the library the code imports.
\<close>

record OS =
  getKubeConfigDir :: "error + string"
  ToolInPath :: "string \<Rightarrow> bool \<times> error option"
  Getenv :: "string \<Rightarrow> string"
  envsubst_Eval :: "string \<Rightarrow> (string \<Rightarrow> string) \<Rightarrow> error + string"

text \<open>
  What \<^verbatim>\<open>os.ReadDir\<close> and \<^verbatim>\<open>os.ReadFile\<close> find below a directory path at the time they
  are called: a directory is unreadable or lists its entries in the order \<^verbatim>\<open>ReadDir\<close>
  gives them; an entry that is not a directory carries its name and the outcome of reading
  it; an entry that is a directory carries its name and what is below it.
\<close>

datatype Dir = Unreadable error | Entries "DirEntry list"
  and DirEntry = FileEntry string "error + string" | DirectoryEntry string Dir

text \<open>
  \<^verbatim>\<open>filepath.Ext\<close>: scan the path backwards up to the last separator; the extension
  starts at the first dot met. \<open>ExtFrom\<close> takes the reversed path and the characters
  already passed.
\<close>

fun ExtFrom :: "string \<Rightarrow> string \<Rightarrow> string" where
  "ExtFrom [] passed = []"
| "ExtFrom (c # cs) passed =
     (if c = CHR ''/'' then []
      else if c = CHR ''.'' then c # passed
      else ExtFrom cs (c # passed))"

definition filepath_Ext :: "string \<Rightarrow> string" where
  "filepath_Ext path = ExtFrom (rev path) []"

text \<open>
  \<^verbatim>\<open>filepath.Clean\<close> with the separator \<^verbatim>\<open>/\<close>: the path is cut at the separators
  (\<open>splitPath\<close>); empty elements and \<^verbatim>\<open>.\<close> are dropped; \<^verbatim>\<open>..\<close> removes the element
  before it when there is one that is not \<^verbatim>\<open>..\<close> itself, is dropped at the root, and is
  kept otherwise (\<open>cleanElements\<close>, whose second argument holds the elements kept so far,
  last first); what is left is joined again, after the root's separator for a rooted path,
  and \<^verbatim>\<open>.\<close> stands for an empty result.
\<close>

fun splitPath :: "string \<Rightarrow> string \<Rightarrow> string list" where
  "splitPath [] element = [rev element]"
| "splitPath (c # cs) element =
     (if c = CHR ''/'' then rev element # splitPath cs [] else splitPath cs (c # element))"

fun cleanElements :: "bool \<Rightarrow> string list \<Rightarrow> string list \<Rightarrow> string list" where
  "cleanElements rooted out [] = rev out"
| "cleanElements rooted out (element # elements) =
     (if element = [] \<or> element = ''.'' then cleanElements rooted out elements
      else if element = ''..'' then
        (case out of
           prev # kept \<Rightarrow>
             if prev \<noteq> ''..'' then cleanElements rooted kept elements
             else cleanElements rooted (element # out) elements
         | [] \<Rightarrow>
             if rooted then cleanElements rooted out elements
             else cleanElements rooted (element # out) elements)
      else cleanElements rooted (element # out) elements)"

fun joinElements :: "string list \<Rightarrow> string" where
  "joinElements [] = []"
| "joinElements [element] = element"
| "joinElements (element # elements) = element @ ''/'' @ joinElements elements"

definition filepath_Clean :: "string \<Rightarrow> string" where
  "filepath_Clean path =
     (if path = [] then ''.''
      else let rooted = (hd path = CHR ''/'');
               out = joinElements (cleanElements rooted [] (splitPath path []))
           in if rooted then ''/'' @ out
              else if out = [] then ''.'' else out)"

text \<open>
  \<^verbatim>\<open>filepath.Join\<close> of a directory path and an entry name: the elements from the first
  one that is not empty are joined by the separator and the result is cleaned; the empty
  string when both are empty.
\<close>

definition filepath_Join :: "string \<Rightarrow> string \<Rightarrow> string" where
  "filepath_Join dir name =
     (if dir \<noteq> [] then filepath_Clean (dir @ ''/'' @ name)
      else if name \<noteq> [] then filepath_Clean name
      else [])"

subsection \<open>The client\<close>

text \<open>
  \<^verbatim>\<open>KubeCliFlags\<close>; \<^verbatim>\<open>DryRunType\<close> and \<^verbatim>\<open>OutputType\<close> are string types. A
  \<^verbatim>\<open>*KubeCliFlags\<close> is \<open>None\<close> when nil.
\<close>

record KubeCliFlags =
  Namespace :: string
  DryRun :: string
  Output :: string

text \<open>
  The client. \<open>env\<close> is a Go \<^verbatim>\<open>map[string]string\<close>: its entries in the order a
  \<^verbatim>\<open>range\<close> loop visits them, a key looked up with \<open>map_of\<close>; the nil map is the empty
  list.
\<close>

record kubectlCli =
  commandRunner :: CommandRunner
  env :: "(string \<times> string) list"
  cwd :: string

definition NewKubectl :: "CommandRunner \<Rightarrow> kubectlCli" where
  "NewKubectl runner = \<lparr>commandRunner = runner, env = [], cwd = []\<rparr>"

definition CheckInstalled :: "OS \<Rightarrow> kubectlCli \<Rightarrow> (bool \<times> error option) \<times> kubectlCli" where
  "CheckInstalled os cli = (ToolInPath os ''kubectl'', cli)"

definition InstallUrl :: "kubectlCli \<Rightarrow> string \<times> kubectlCli" where
  "InstallUrl cli = (''https://aka.ms/azure-dev/kubectl-install'', cli)"

definition Name :: "kubectlCli \<Rightarrow> string \<times> kubectlCli" where
  "Name cli = (''kubectl'', cli)"

definition SetEnv :: "kubectlCli \<Rightarrow> (string \<times> string) list \<Rightarrow> kubectlCli" where
  "SetEnv cli envValues = cli\<lparr>env := envValues\<rparr>"

definition Cwd :: "kubectlCli \<Rightarrow> string \<Rightarrow> kubectlCli" where
  "Cwd cli dir = cli\<lparr>cwd := dir\<rparr>"

primrec environ :: "(string \<times> string) list \<Rightarrow> string list" where
  "environ [] = []"
| "environ (kv # values) = (fst kv @ ''='' @ snd kv) # environ values"

definition executeCommandWithArgs ::
  "kubectlCli \<Rightarrow> RunArgs \<Rightarrow> KubeCliFlags option
     \<Rightarrow> (RunResult \<times> error option) \<times> kubectlCli" where
  "executeCommandWithArgs cli args0 flags =
     (let args1 = WithEnrichError args0 True;
          args2 = (if cwd cli \<noteq> [] then WithCwd args1 (cwd cli) else args1);
          args5 =
            (case flags of
               None \<Rightarrow> args2
             | Some f \<Rightarrow>
                 (let args3 = (if DryRun f \<noteq> []
                               then AppendParams args2 [''--dry-run='' @ DryRun f] else args2);
                      args4 = (if Namespace f \<noteq> []
                               then AppendParams args3 [''-n'', Namespace f] else args3)
                  in if Output f \<noteq> [] then AppendParams args4 [''-o'', Output f] else args4));
          (res, runner) = Run (commandRunner cli) args5
      in (res, cli\<lparr>commandRunner := runner\<rparr>))"

definition Exec ::
  "kubectlCli \<Rightarrow> KubeCliFlags option \<Rightarrow> string list
     \<Rightarrow> (RunResult \<times> error option) \<times> kubectlCli" where
  "Exec cli flags args =
     executeCommandWithArgs cli (AppendParams (NewRunArgs ''kubectl'' []) args) flags"

text \<open>
  The shape shared by the callers, which return \<^verbatim>\<open>(*exec.RunResult, error)\<close>: when the
  error is not nil, a nil result and the error wrapped with the context message; otherwise
  the result.
\<close>

definition wrapErr ::
  "string \<Rightarrow> (RunResult \<times> error option) \<times> kubectlCli \<Rightarrow> (error + RunResult) \<times> kubectlCli" where
  "wrapErr msg r =
     (case snd (fst r) of
        Some err \<Rightarrow> (Inl (Errorf msg err), snd r)
      | None \<Rightarrow> (Inr (fst (fst r)), snd r))"

definition ConfigUseContext ::
  "kubectlCli \<Rightarrow> string \<Rightarrow> KubeCliFlags option \<Rightarrow> (error + RunResult) \<times> kubectlCli" where
  "ConfigUseContext cli name flags =
     wrapErr ''failed setting kubectl context: ''
       (Exec cli flags [''config'', ''use-context'', name])"

definition ConfigView ::
  "OS \<Rightarrow> kubectlCli \<Rightarrow> bool \<Rightarrow> bool \<Rightarrow> KubeCliFlags option
     \<Rightarrow> (error + RunResult) \<times> kubectlCli" where
  "ConfigView os cli merge flatten flags =
     (case getKubeConfigDir os of
        Inl err \<Rightarrow> (Inl err, cli)
      | Inr kubeConfigDir \<Rightarrow>
          (let args0 = [''config'', ''view''];
               args1 = (if merge then args0 @ [''--merge''] else args0);
               args2 = (if flatten then args1 @ [''--flatten''] else args1);
               runArgs = WithEnv (WithCwd (NewRunArgs ''kubectl'' args2) kubeConfigDir)
                           (environ (env cli))
           in wrapErr ''kubectl config view: '' (executeCommandWithArgs cli runArgs flags)))"

definition ApplyWithInput ::
  "kubectlCli \<Rightarrow> string \<Rightarrow> KubeCliFlags option \<Rightarrow> (error + RunResult) \<times> kubectlCli" where
  "ApplyWithInput cli input flags =
     (let runArgs = WithStdIn (WithEnv (NewRunArgs ''kubectl'' [''apply'', ''-f'', ''-''])
                                 (environ (env cli))) input
      in wrapErr ''kubectl apply -f: '' (executeCommandWithArgs cli runArgs flags))"

definition CreateSecretGenericFromLiterals ::
  "kubectlCli \<Rightarrow> string \<Rightarrow> string list \<Rightarrow> KubeCliFlags option
     \<Rightarrow> (error + RunResult) \<times> kubectlCli" where
  "CreateSecretGenericFromLiterals cli name secrets flags =
     (let args = [''create'', ''secret'', ''generic'', name]
                 @ map (\<lambda>secret. ''--from-literal='' @ secret) secrets
      in wrapErr ''kubectl create secret generic --from-literal: '' (Exec cli flags args))"

definition CreateNamespace ::
  "kubectlCli \<Rightarrow> string \<Rightarrow> KubeCliFlags option \<Rightarrow> (error + RunResult) \<times> kubectlCli" where
  "CreateNamespace cli name flags =
     wrapErr ''kubectl create namespace: '' (Exec cli flags [''create'', ''namespace'', name])"

definition RolloutStatus ::
  "kubectlCli \<Rightarrow> string \<Rightarrow> KubeCliFlags option \<Rightarrow> (error + RunResult) \<times> kubectlCli" where
  "RolloutStatus cli deploymentName flags =
     wrapErr ''deployment rollout failed, ''
       (Exec cli flags [''rollout'', ''status'', ''deployment/'' @ deploymentName])"

text \<open>
  \<^verbatim>\<open>applyTemplate\<close>; \<open>content\<close> is what \<^verbatim>\<open>os.ReadFile(filePath)\<close> gives. The function
  handed to \<^verbatim>\<open>envsubst.Eval\<close> looks a name up in the client's map first and in the process
  environment otherwise.
\<close>

definition applyTemplate ::
  "OS \<Rightarrow> kubectlCli \<Rightarrow> string \<Rightarrow> error + string \<Rightarrow> KubeCliFlags option
     \<Rightarrow> error option \<times> kubectlCli" where
  "applyTemplate os cli filePath content flags =
     (case content of
        Inl err \<Rightarrow>
          (Some (Errorf (''failed reading manifest file '' @ [CHR 0x27] @ filePath @ [CHR 0x27] @ '', '') err),
           cli)
      | Inr yaml \<Rightarrow>
          (case envsubst_Eval os yaml
                  (\<lambda>name. case map_of (env cli) name of Some val \<Rightarrow> val
                                                       | None \<Rightarrow> Getenv os name) of
             Inl err \<Rightarrow> (Some (Errorf ''failed replacing env vars, '' err), cli)
           | Inr replaced \<Rightarrow>
               (case ApplyWithInput cli replaced flags of
                  (Inl err, cli') \<Rightarrow>
                    (Some (Errorf (''failed applying file '' @ [CHR 0x27] @ filePath @ [CHR 0x27] @ '', '') err),
                     cli')
                | (Inr res, cli') \<Rightarrow> (None, cli'))))"

text \<open>
  \<^verbatim>\<open>applyTemplates\<close>; \<open>dir\<close> is what \<^verbatim>\<open>os.ReadDir(directoryPath)\<close> finds.
  \<open>applyEntries\<close> is its loop over the entries.
\<close>

fun applyTemplates ::
  "OS \<Rightarrow> kubectlCli \<Rightarrow> string \<Rightarrow> Dir \<Rightarrow> KubeCliFlags option \<Rightarrow> error option \<times> kubectlCli"
and applyEntries ::
  "OS \<Rightarrow> kubectlCli \<Rightarrow> string \<Rightarrow> DirEntry list \<Rightarrow> KubeCliFlags option
     \<Rightarrow> error option \<times> kubectlCli"
where
  "applyTemplates os cli directoryPath (Unreadable err) flags =
     (Some (Errorf (''failed reading files in path, '' @ [CHR 0x27] @ directoryPath @ [CHR 0x27] @ '', '') err),
      cli)"
| "applyTemplates os cli directoryPath (Entries entries) flags =
     applyEntries os cli directoryPath entries flags"
| "applyEntries os cli directoryPath [] flags = (None, cli)"
| "applyEntries os cli directoryPath (DirectoryEntry name dir # entries) flags =
     (let entryPath = filepath_Join directoryPath name
      in case applyTemplates os cli entryPath dir flags of
           (Some err, cli') \<Rightarrow>
             (Some (Errorf (''failed applying templates at '' @ [CHR 0x27] @ entryPath @ [CHR 0x27] @ '', '') err),
              cli')
         | (None, cli') \<Rightarrow> applyEntries os cli' directoryPath entries flags)"
| "applyEntries os cli directoryPath (FileEntry name content # entries) flags =
     (let entryPath = filepath_Join directoryPath name;
          ext = filepath_Ext name
      in if \<not> (ext = ''.yaml'' \<or> ext = ''.yml'')
         then applyEntries os cli directoryPath entries flags
         else case applyTemplate os cli entryPath content flags of
                (Some err, cli') \<Rightarrow>
                  (Some (Errorf (''failed applying template '' @ [CHR 0x27] @ entryPath @ [CHR 0x27] @ '', '') err),
                   cli')
              | (None, cli') \<Rightarrow> applyEntries os cli' directoryPath entries flags)"

definition Apply ::
  "OS \<Rightarrow> kubectlCli \<Rightarrow> string \<Rightarrow> Dir \<Rightarrow> KubeCliFlags option \<Rightarrow> error option \<times> kubectlCli" where
  "Apply os cli path dir flags =
     (case applyTemplates os cli path dir flags of
        (Some err, cli') \<Rightarrow> (Some (Errorf ''failed process templates, '' err), cli')
      | (None, cli') \<Rightarrow> (None, cli'))"

section \<open>The mock context\<close>

text \<open>
  Objects live in a store and are known by their address; a pointer is an address, and
  two pointers are the same object exactly when the addresses are equal.
\<close>

type_synonym addr = nat

text \<open>
  The \<^verbatim>\<open>MockContext\<close> struct. Every field of pointer or interface type holds the
  address of the object it points to.
\<close>

record MockContext =
  Credentials :: addr
  Context :: addr
  Console :: addr
  HttpClient :: addr
  CoreClientOptions :: addr
  ArmClientOptions :: addr
  CommandRunner :: addr
  ConfigManager :: addr
  Container :: addr
  AlphaFeaturesManager :: addr
  SubscriptionCredentialProvider :: addr
  MultiTenantCredentialProvider :: addr
  Config :: addr

text \<open>The types under which \<^verbatim>\<open>registerCommonMocks\<close> registers a resolver.\<close>

datatype ServiceType =
    ioc_ServiceLocator
  | azcore_TokenCredential
  | httputil_HttpClient
  | exec_CommandRunner
  | input_Console
  | config_FileConfigManager
  | alpha_FeatureManager_ptr
  | policy_ClientOptions_ptr
  | arm_ClientOptions_ptr

text \<open>
  The objects \<^verbatim>\<open>NewMockContext\<close> creates. \<^verbatim>\<open>azcore.ClientOptions\<close> is
  \<^verbatim>\<open>policy.ClientOptions\<close>; of its fields only \<^verbatim>\<open>Transport\<close> is set, and
  \<^verbatim>\<open>arm.ClientOptions\<close> embeds one. A resolver is a closure over the mock context that
  returns one of its fields when called.

  Modelled from the spec: the packages \<^verbatim>\<open>ioc\<close>, \<^verbatim>\<open>mockhttp\<close>, \<^verbatim>\<open>mockconfig\<close>,
  \<^verbatim>\<open>mockinput\<close>, \<^verbatim>\<open>mockexec\<close>, \<^verbatim>\<open>config\<close> and \<^verbatim>\<open>alpha\<close> are not among the source
  files. The spec describes "a dependency-injection container" into which "fake
  implementations" are wired: each constructor makes a new object, a container keeps the
  resolver registered for each type, a later registration for a type replacing an earlier
  one, and resolving a type calls its resolver.
\<close>

datatype object =
    MockHttpClient
  | MockConfigManager
  | EmptyConfig
  | azcore_ClientOptions (Transport: "addr option")
  | arm_ClientOptions (ClientOptions_Transport: "addr option")
  | MockCredentials
  | ContextValue
  | MockConsole
  | MockCommandRunner
  | MockSubscriptionCredentialProvider
  | MockMultiTenantCredentialProvider
  | NestedContainer (parent: "addr option") (singletons: "(ServiceType \<times> (MockContext \<Rightarrow> addr)) list")
  | FeatureManager (featureConfig: addr)

record heap =
  objects :: "addr \<rightharpoonup> object"
  fresh :: addr

definition new :: "object \<Rightarrow> heap \<Rightarrow> addr \<times> heap" where
  "new obj h = (fresh h, \<lparr>objects = (objects h)(fresh h \<mapsto> obj), fresh = Suc (fresh h)\<rparr>)"

text \<open>
  \<^verbatim>\<open>MustRegisterSingleton\<close> on the container at an address; \<open>None\<close> is its panic, here
  when the address holds no container.
\<close>

definition MustRegisterSingleton ::
  "addr \<Rightarrow> ServiceType \<Rightarrow> (MockContext \<Rightarrow> addr) \<Rightarrow> heap \<Rightarrow> heap option" where
  "MustRegisterSingleton c ty resolver h =
     (case objects h c of
        Some (NestedContainer p regs) \<Rightarrow>
          Some (h\<lparr>objects := (objects h)(c \<mapsto> NestedContainer p ((ty, resolver) # regs))\<rparr>)
      | _ \<Rightarrow> None)"

text \<open>Resolving a type from the mock context's container.\<close>

definition Resolve :: "heap \<Rightarrow> MockContext \<Rightarrow> ServiceType \<Rightarrow> addr option" where
  "Resolve h mockContext ty =
     (case objects h (Container mockContext) of
        Some (NestedContainer p regs) \<Rightarrow>
          (case map_of regs ty of
             Some resolver \<Rightarrow> Some (resolver mockContext)
           | None \<Rightarrow> None)
      | _ \<Rightarrow> None)"

definition registerCommonMocks :: "MockContext \<Rightarrow> heap \<Rightarrow> heap option" where
  "registerCommonMocks mockContext h0 =
     (case MustRegisterSingleton (Container mockContext) ioc_ServiceLocator Container h0 of
        None \<Rightarrow> None
      | Some h1 \<Rightarrow>
     (case MustRegisterSingleton (Container mockContext) azcore_TokenCredential Credentials h1 of
        None \<Rightarrow> None
      | Some h2 \<Rightarrow>
     (case MustRegisterSingleton (Container mockContext) httputil_HttpClient HttpClient h2 of
        None \<Rightarrow> None
      | Some h3 \<Rightarrow>
     (case MustRegisterSingleton (Container mockContext) exec_CommandRunner CommandRunner h3 of
        None \<Rightarrow> None
      | Some h4 \<Rightarrow>
     (case MustRegisterSingleton (Container mockContext) input_Console Console h4 of
        None \<Rightarrow> None
      | Some h5 \<Rightarrow>
     (case MustRegisterSingleton (Container mockContext) config_FileConfigManager ConfigManager h5 of
        None \<Rightarrow> None
      | Some h6 \<Rightarrow>
     (case MustRegisterSingleton (Container mockContext) alpha_FeatureManager_ptr
             AlphaFeaturesManager h6 of
        None \<Rightarrow> None
      | Some h7 \<Rightarrow>
     (case MustRegisterSingleton (Container mockContext) policy_ClientOptions_ptr
             CoreClientOptions h7 of
        None \<Rightarrow> None
      | Some h8 \<Rightarrow>
        MustRegisterSingleton (Container mockContext) arm_ClientOptions_ptr
          ArmClientOptions h8))))))))"

text \<open>
  \<^verbatim>\<open>NewMockContext\<close>: the objects are created in the order the Go code evaluates its
  statements and the fields of the struct literal; \<open>None\<close> is a panic of the
  registrations.
\<close>

definition NewMockContext :: "heap \<Rightarrow> (MockContext \<times> heap) option" where
  "NewMockContext h0 =
     (let (httpClient, h1) = new MockHttpClient h0;
          (configManager, h2) = new MockConfigManager h1;
          (config, h3) = new EmptyConfig h2;
          (coreClientOptions, h4) = new (azcore_ClientOptions (Some httpClient)) h3;
          (armClientOptions, h5) = new (arm_ClientOptions (Some httpClient)) h4;
          (credentials, h6) = new MockCredentials h5;
          (ctx, h7) = new ContextValue h6;
          (console, h8) = new MockConsole h7;
          (commandRunner, h9) = new MockCommandRunner h8;
          (subscriptionCredentialProvider, h10) = new MockSubscriptionCredentialProvider h9;
          (multiTenantCredentialProvider, h11) = new MockMultiTenantCredentialProvider h10;
          (container, h12) = new (NestedContainer None []) h11;
          (alphaFeaturesManager, h13) = new (FeatureManager config) h12;
          mockContext =
            \<lparr>Credentials = credentials, Context = ctx, Console = console,
             HttpClient = httpClient, CoreClientOptions = coreClientOptions,
             ArmClientOptions = armClientOptions, CommandRunner = commandRunner,
             ConfigManager = configManager, Container = container,
             AlphaFeaturesManager = alphaFeaturesManager,
             SubscriptionCredentialProvider = subscriptionCredentialProvider,
             MultiTenantCredentialProvider = multiTenantCredentialProvider,
             Config = config\<rparr>
      in case registerCommonMocks mockContext h13 of
           None \<Rightarrow> None
         | Some h \<Rightarrow> Some (mockContext, h))"

section \<open>Notions used by the theorems\<close>

text \<open>
  \<open>wraps r e\<close>: the error \<open>r\<close> is \<open>e\<close> or wraps it, that is, \<open>e\<close> is reached from
  \<open>r\<close> by zero or more \<^verbatim>\<open>Unwrap\<close> steps.
\<close>

fun wraps :: "error \<Rightarrow> error \<Rightarrow> bool" where
  "wraps (Errorf msg r) e = (Errorf msg r = e \<or> wraps r e)"
| "wraps r e = (r = e)"

text \<open>The requests the four deploying operations shape from their arguments.\<close>

definition subscriptionDeployment ::
  "string \<Rightarrow> RawArmTemplate \<Rightarrow> ArmParameters \<Rightarrow> Tags \<Rightarrow> Deployment" where
  "subscriptionDeployment location armTemplate parameters tags =
     \<lparr>Properties = Some \<lparr>Template = armTemplate, Parameters = parameters,
                         Mode = Some DeploymentModeIncremental\<rparr>,
      Location = Some location, Tags = tags\<rparr>"

definition resourceGroupDeployment ::
  "RawArmTemplate \<Rightarrow> ArmParameters \<Rightarrow> Tags \<Rightarrow> Deployment" where
  "resourceGroupDeployment armTemplate parameters tags =
     \<lparr>Properties = Some \<lparr>Template = armTemplate, Parameters = parameters,
                         Mode = Some DeploymentModeIncremental\<rparr>,
      Location = None, Tags = tags\<rparr>"

definition subscriptionWhatIf ::
  "string \<Rightarrow> RawArmTemplate \<Rightarrow> ArmParameters \<Rightarrow> DeploymentWhatIf" where
  "subscriptionWhatIf location armTemplate parameters =
     \<lparr>WhatIfProperties =
        Some \<lparr>WhatIfTemplate = armTemplate, WhatIfParameters = parameters,
              WhatIfMode = Some DeploymentModeIncremental,
              WhatIfSettings = Some DeploymentWhatIfSettings\<rparr>,
      WhatIfLocation = Some location\<rparr>"

definition resourceGroupWhatIf :: "RawArmTemplate \<Rightarrow> ArmParameters \<Rightarrow> DeploymentWhatIf" where
  "resourceGroupWhatIf armTemplate parameters =
     \<lparr>WhatIfProperties =
        Some \<lparr>WhatIfTemplate = armTemplate, WhatIfParameters = parameters,
              WhatIfMode = Some DeploymentModeIncremental,
              WhatIfSettings = None\<rparr>,
      WhatIfLocation = None\<rparr>"

text \<open>
  The error the deploying operations wrap when polling fails with \<open>e\<close>: \<open>e\<close> itself
  unless it carries a response error, and then an Azure deployment error holding the
  response body, or the error's text when the body cannot be read.
\<close>

definition pollError :: "error \<Rightarrow> error" where
  "pollError e =
     (case errors_As e of
        None \<Rightarrow> e
      | Some r \<Rightarrow>
          AzureDeploymentError (case RawResponseBody r of Some body \<Rightarrow> body
                                                        | None \<Rightarrow> ErrorText r))"

text \<open>An error that carries a response error of status 404.\<close>

definition isNotFound :: "error \<Rightarrow> bool" where
  "isNotFound e = (case errors_As e of Some r \<Rightarrow> StatusCode r = 404 | None \<Rightarrow> False)"

text \<open>The requests that create, update or delete a deployment.\<close>

fun changesDeployments :: "SdkCall \<Rightarrow> bool" where
  "changesDeployments (BeginCreateOrUpdateAtSubscriptionScope n d) = True"
| "changesDeployments (BeginCreateOrUpdate g n d) = True"
| "changesDeployments (BeginDeleteAtSubscriptionScope n) = True"
| "changesDeployments (BeginWhatIfAtSubscriptionScope n d) = False"
| "changesDeployments (BeginWhatIf g n d) = False"
| "changesDeployments CallPollUntilDone = False"

text \<open>
  The deployment state of the service is outside the code; the wrapper reaches it only
  through the requests it sends. \<open>effect c st\<close> is the state of a service that was in
  state \<open>st\<close> when the request \<open>c\<close> reached it, and \<open>stateAfter\<close> the state after a
  sequence of requests. A service treats a what-if as the glossary describes it, "a
  dry-run that previews resource changes without applying them", when every request that
  is not a create-or-update or delete request leaves its state as it is (\<open>dryRun\<close>).
\<close>

definition stateAfter :: "(SdkCall \<Rightarrow> 's \<Rightarrow> 's) \<Rightarrow> 's \<Rightarrow> SdkCall list \<Rightarrow> 's" where
  "stateAfter effect st calls = foldl (\<lambda>st' c. effect c st') st calls"

definition dryRun :: "(SdkCall \<Rightarrow> 's \<Rightarrow> 's) \<Rightarrow> bool" where
  "dryRun effect \<longleftrightarrow> (\<forall>c st. \<not> changesDeployments c \<longrightarrow> effect c st = st)"

text \<open>
  The arguments the flags stand for, in the order of the description: the dry-run
  argument, then the namespace, then the output format, each only when its field is not
  empty, and nothing for nil flags.
\<close>

definition flagArgs :: "KubeCliFlags option \<Rightarrow> string list" where
  "flagArgs flags =
     (case flags of
        None \<Rightarrow> []
      | Some f \<Rightarrow>
          (if DryRun f \<noteq> [] then [''--dry-run='' @ DryRun f] else [])
          @ (if Namespace f \<noteq> [] then [''-n'', Namespace f] else [])
          @ (if Output f \<noteq> [] then [''-o'', Output f] else []))"

text \<open>
  What the description asks of a command handed to the runner by a client \<open>cli\<close> with
  flags \<open>flags\<close>, \<open>own\<close> being the operation's own arguments.
\<close>

definition kubectlCommand ::
  "kubectlCli \<Rightarrow> KubeCliFlags option \<Rightarrow> string list \<Rightarrow> RunArgs \<Rightarrow> bool" where
  "kubectlCommand cli flags own c \<longleftrightarrow>
     Cmd c = ''kubectl'' \<and> EnrichError c \<and> (cwd cli \<noteq> [] \<longrightarrow> RunCwd c = cwd cli)
     \<and> Args c = own @ flagArgs flags"

text \<open>The commands an operation handed to the runner: those recorded after \<open>cli\<close>'s.\<close>

definition newCommands :: "kubectlCli \<Rightarrow> kubectlCli \<Rightarrow> RunArgs list" where
  "newCommands cli cli' = drop (length (history (commandRunner cli))) (history (commandRunner cli'))"

text \<open>The command \<^verbatim>\<open>kubectl apply -f -\<close> with a manifest on its standard input.\<close>

definition applyCommand :: "kubectlCli \<Rightarrow> KubeCliFlags option \<Rightarrow> string \<Rightarrow> RunArgs" where
  "applyCommand cli flags input =
     \<lparr>Cmd = ''kubectl'', Args = [''apply'', ''-f'', ''-''] @ flagArgs flags, RunCwd = cwd cli,
      Env = Some (environ (env cli)), StdIn = Some input, EnrichError = True\<rparr>"

text \<open>
  The traversal in the words of its description. \<open>manifests\<close> lists, in the order the
  traversal meets them, what is to be done below a directory: a directory that cannot be
  listed, or a non-directory entry with the extension \<^verbatim>\<open>.yaml\<close> or \<^verbatim>\<open>.yml\<close>, with the
  outcome of reading it. Entries with another extension do not appear.
\<close>

datatype step = CannotList error | Manifest "error + string"

fun manifests :: "Dir \<Rightarrow> step list"
and entriesManifests :: "DirEntry list \<Rightarrow> step list" where
  "manifests (Unreadable err) = [CannotList err]"
| "manifests (Entries entries) = entriesManifests entries"
| "entriesManifests [] = []"
| "entriesManifests (DirectoryEntry name dir # entries) =
     manifests dir @ entriesManifests entries"
| "entriesManifests (FileEntry name content # entries) =
     (if filepath_Ext name = ''.yaml'' \<or> filepath_Ext name = ''.yml''
      then [Manifest content] else [])
     @ entriesManifests entries"

text \<open>
  A variable of a manifest is resolved from the client's map when it is there, and from
  the process environment otherwise.
\<close>

definition resolveVar :: "OS \<Rightarrow> kubectlCli \<Rightarrow> string \<Rightarrow> string" where
  "resolveVar os cli name =
     (if name \<in> fst ` set (env cli) then the (map_of (env cli) name) else Getenv os name)"

text \<open>
  \<open>applySteps\<close> does the steps in order and stops at the first that fails, giving that
  step's own error: a manifest is read, its variables are substituted, and the result is
  applied with \<open>applyCommand\<close>.
\<close>

fun applySteps ::
  "OS \<Rightarrow> kubectlCli \<Rightarrow> KubeCliFlags option \<Rightarrow> step list \<Rightarrow> error option \<times> kubectlCli" where
  "applySteps os cli flags [] = (None, cli)"
| "applySteps os cli flags (CannotList err # steps) = (Some err, cli)"
| "applySteps os cli flags (Manifest (Inl err) # steps) = (Some err, cli)"
| "applySteps os cli flags (Manifest (Inr yaml) # steps) =
     (case envsubst_Eval os yaml (resolveVar os cli) of
        Inl err \<Rightarrow> (Some err, cli)
      | Inr replaced \<Rightarrow>
          (case snd (fst (Run (commandRunner cli) (applyCommand cli flags replaced))) of
             Some err \<Rightarrow>
               (Some err,
                cli\<lparr>commandRunner :=
                      snd (Run (commandRunner cli) (applyCommand cli flags replaced))\<rparr>)
           | None \<Rightarrow>
               applySteps os
                 (cli\<lparr>commandRunner :=
                        snd (Run (commandRunner cli) (applyCommand cli flags replaced))\<rparr>)
                 flags steps))"

text \<open>\<open>reports r e\<close>: the outcome \<open>r\<close> reports the error \<open>e\<close>, or no error at all.\<close>

fun reports :: "error option \<Rightarrow> error option \<Rightarrow> bool" where
  "reports None None = True"
| "reports (Some r) (Some e) = wraps r e"
| "reports r e = False"

section \<open>Example inputs\<close>

text \<open>Two deployments, three errors, and a client that answers by deployment name.\<close>

definition deploymentA :: DeploymentExtended where
  "deploymentA = DeploymentExtended ''/subscriptions/s/deployments/a'' ''a''"

definition deploymentB :: DeploymentExtended where
  "deploymentB = DeploymentExtended ''/subscriptions/s/deployments/b'' ''b''"

definition err404 :: error where
  "err404 = ResponseErr (ResponseError 404 ''GET: 404 Not Found'' (Some ''DeploymentNotFound''))"

definition err400 :: error where
  "err400 = ResponseErr (ResponseError 400 ''PUT: 400 Bad Request'' (Some ''InvalidTemplate''))"

definition errTimeout :: error where
  "errTimeout = ErrorString ''context deadline exceeded''"

definition whatIfResult :: WhatIfOperationResult where
  "whatIfResult = WhatIfOperationResult ''Succeeded'' [''Create storage'']"

definition exampleClient :: DeploymentsClient where
  "exampleClient =
     \<lparr>sdkCalculateTemplateHash =
        (\<lambda>t. if t = [] then Inl errTimeout else Inr ''1234''),
      sdkNewListAtSubscriptionScopePager =
        [Inr (DeploymentListResult (Slice [deploymentA])),
         Inr (DeploymentListResult NilSlice),
         Inr (DeploymentListResult (Slice [deploymentB, deploymentA]))],
      sdkNewListByResourceGroupPager =
        (\<lambda>rg. if rg = ''rg''
              then [Inr (DeploymentListResult (Slice [deploymentA])), Inl errTimeout,
                    Inr (DeploymentListResult (Slice [deploymentB]))]
              else []),
      sdkGetAtSubscriptionScope =
        (\<lambda>n. if n = ''a'' then Inr deploymentA
             else if n = ''slow'' then Inl errTimeout
             else Inl err404),
      sdkGet =
        (\<lambda>rg n. if n = ''a'' then Inr deploymentA
                else if n = ''bad'' then Inl (Errorf ''request failed: '' err400)
                else Inl (Errorf ''request failed: '' err404)),
      sdkBeginCreateOrUpdateAtSubscriptionScope =
        (\<lambda>n d. if n = ''slow'' then Inl errTimeout
               else if n = ''bad'' then Inr (Poller (Inl err400))
               else Inr (Poller (Inr deploymentA))),
      sdkBeginCreateOrUpdate =
        (\<lambda>rg n d. if n = ''slow'' then Inl errTimeout
                  else if n = ''bad'' then Inr (Poller (Inl errTimeout))
                  else Inr (Poller (Inr deploymentB))),
      sdkBeginWhatIfAtSubscriptionScope =
        (\<lambda>n d. if n = ''slow'' then Inl errTimeout
               else if n = ''bad'' then Inr (Poller (Inl err400))
               else Inr (Poller (Inr whatIfResult))),
      sdkBeginWhatIf =
        (\<lambda>rg n d. if n = ''slow'' then Inl errTimeout
                  else if n = ''bad'' then Inr (Poller (Inl err400))
                  else Inr (Poller (Inr whatIfResult))),
      sdkBeginDeleteAtSubscriptionScope =
        (\<lambda>n. if n = ''slow'' then Inl errTimeout
             else if n = ''bad'' then Inr (Poller (Inl err400))
             else Inr (Poller (Inr ())))\<rparr>"

text \<open>
  A service whose state is the list of the names of its deployments: a create-or-update
  request adds the name, a delete request removes it.
\<close>

fun exampleService :: "SdkCall \<Rightarrow> string list \<Rightarrow> string list" where
  "exampleService (BeginCreateOrUpdateAtSubscriptionScope n d) st = n # st"
| "exampleService (BeginCreateOrUpdate g n d) st = n # st"
| "exampleService (BeginDeleteAtSubscriptionScope n) st = removeAll n st"
| "exampleService (BeginWhatIfAtSubscriptionScope n d) st = st"
| "exampleService (BeginWhatIf g n d) st = st"
| "exampleService CallPollUntilDone st = st"

text \<open>An operating system in which the configuration directory is not found.\<close>

definition noKubeConfigOS :: OS where
  "noKubeConfigOS =
     \<lparr>getKubeConfigDir = Inl (ErrorString ''home directory not found''),
      ToolInPath = (\<lambda>name. (False, None)),
      Getenv = (\<lambda>name. []),
      envsubst_Eval = (\<lambda>text mapping. Inr text)\<rparr>"

text \<open>
  A client with a map and a working directory, a runner that fails on the manifest
  \<^verbatim>\<open>bad\<close>, an environment whose substitution replaces a text \<^verbatim>\<open>$NAME\<close> by the value
  of \<^verbatim>\<open>NAME\<close>, and a directory with manifests, another file and a subdirectory.
\<close>

definition exampleRunner :: CommandRunner where
  "exampleRunner =
     \<lparr>respond = (\<lambda>before a. if StdIn a = Some ''bad''
                            then (RunResult 1 [] ''error'', Some (ErrorString ''exit status 1''))
                            else (RunResult 0 ''ok'' [], None)),
      history = []\<rparr>"

definition exampleCli :: kubectlCli where
  "exampleCli = \<lparr>commandRunner = exampleRunner, env = [(''IMAGE'', ''nginx'')], cwd = ''/work''\<rparr>"

definition exampleFlags :: "KubeCliFlags option" where
  "exampleFlags = Some \<lparr>Namespace = ''prod'', DryRun = ''client'', Output = []\<rparr>"

definition exampleOS :: OS where
  "exampleOS =
     \<lparr>getKubeConfigDir = Inr ''/home/u/.kube'',
      ToolInPath = (\<lambda>name. (True, None)),
      Getenv = (\<lambda>name. if name = ''HOME'' then ''/home/u'' else []),
      envsubst_Eval = (\<lambda>text mapping. case text of
                                          [] \<Rightarrow> Inl (ErrorString ''empty template'')
                                        | c # name \<Rightarrow> if c = CHR ''$'' then Inr (mapping name)
                                                      else Inr text)\<rparr>"

definition exampleDir :: Dir where
  "exampleDir =
     Entries
       [FileEntry ''a.yaml'' (Inr ''$IMAGE''),
        FileEntry ''README.md'' (Inr ''read me''),
        DirectoryEntry ''sub''
          (Entries [FileEntry ''b.yml'' (Inr ''$HOME''),
                    FileEntry ''c.yaml'' (Inl (ErrorString ''permission denied'')),
                    FileEntry ''d.yaml'' (Inr ''kind: Pod'')]),
        FileEntry ''e.yaml'' (Inr ''kind: Service'')]"

text \<open>Raw outputs of a deployment: two of the accepted shape, one not.\<close>

definition exampleOutputs :: any where
  "exampleOutputs =
     AnyMap [(''url'', AnyMap [(''type'', AnyString ''String''),
                              (''value'', AnyString ''https://example.org'')]),
             (''replicas'', AnyMap [(''value'', AnyNumber 3), (''type'', AnyString ''Int'')]),
             (''empty'', AnyMap [(''type'', AnyString ''Object'')])]"

definition badOutputs :: any where
  "badOutputs =
     AnyMap [(''url'', AnyMap [(''type'', AnyString ''String''),
                              (''value'', AnyString ''https://example.org'')]),
             (''replicas'', AnyMap [(''value'', AnyNumber 3)])]"

text \<open>A store with nothing in it.\<close>

definition emptyHeap :: heap where
  "emptyHeap = \<lparr>objects = Map.empty, fresh = 0\<rparr>"

section \<open>Theorems\<close>

subsection \<open>Getting a deployment\<close>

text \<open>
  C8. \<open>GetSubscriptionDeployment\<close> and \<open>GetResourceGroupDeployment\<close> return the sentinel
  \<open>ErrDeploymentNotFound\<close> exactly when the SDK call fails with an error that carries a
  response error of status 404; every other failure comes back as the SDK's error wrapped
  with a context message; on success the deployment of the response is returned.
\<close>

theorem C8_get_deployment:
  "(GetSubscriptionDeployment ds n = Inl ErrDeploymentNotFound \<longleftrightarrow>
      (\<exists>err r. sdkGetAtSubscriptionScope ds n = Inl err \<and> errors_As err = Some r
               \<and> StatusCode r = 404))
   \<and> (GetResourceGroupDeployment ds g n = Inl ErrDeploymentNotFound \<longleftrightarrow>
      (\<exists>err r. sdkGet ds g n = Inl err \<and> errors_As err = Some r \<and> StatusCode r = 404))
   \<and> (\<forall>err. sdkGetAtSubscriptionScope ds n = Inl err
            \<and> \<not> (\<exists>r. errors_As err = Some r \<and> StatusCode r = 404)
         \<longrightarrow> GetSubscriptionDeployment ds n
               = Inl (Errorf ''getting deployment from subscription: '' err))
   \<and> (\<forall>err. sdkGet ds g n = Inl err
            \<and> \<not> (\<exists>r. errors_As err = Some r \<and> StatusCode r = 404)
         \<longrightarrow> GetResourceGroupDeployment ds g n
               = Inl (Errorf ''getting deployment from resource group: '' err))
   \<and> (\<forall>d. sdkGetAtSubscriptionScope ds n = Inr d \<longrightarrow> GetSubscriptionDeployment ds n = Inr d)
   \<and> (\<forall>d. sdkGet ds g n = Inr d \<longrightarrow> GetResourceGroupDeployment ds g n = Inr d)"
  by (auto simp: GetSubscriptionDeployment_def GetResourceGroupDeployment_def
           split: sum.splits option.splits)

text \<open>
  Witness for C8: a response error of status 404, bare and wrapped; a timeout; a wrapped
  response error of status 400; a deployment that is found.
\<close>

theorem C8_get_deployment_witness:
  "GetSubscriptionDeployment exampleClient ''zz'' = Inl ErrDeploymentNotFound
   \<and> GetResourceGroupDeployment exampleClient ''rg'' ''zz'' = Inl ErrDeploymentNotFound
   \<and> GetSubscriptionDeployment exampleClient ''slow''
       = Inl (Errorf ''getting deployment from subscription: '' errTimeout)
   \<and> GetResourceGroupDeployment exampleClient ''rg'' ''bad''
       = Inl (Errorf ''getting deployment from resource group: ''
                (Errorf ''request failed: '' err400))
   \<and> GetSubscriptionDeployment exampleClient ''a'' = Inr deploymentA
   \<and> GetResourceGroupDeployment exampleClient ''rg'' ''a'' = Inr deploymentA"
proof -
  have a: "sdkGetAtSubscriptionScope exampleClient ''zz'' = Inl err404"
    and a': "errors_As err404 = Some (ResponseError 404 ''GET: 404 Not Found'' (Some ''DeploymentNotFound''))"
    and b: "sdkGet exampleClient ''rg'' ''zz'' = Inl (Errorf ''request failed: '' err404)"
    and c: "sdkGetAtSubscriptionScope exampleClient ''slow'' = Inl errTimeout"
    and c': "errors_As errTimeout = None"
    and d: "sdkGet exampleClient ''rg'' ''bad'' = Inl (Errorf ''request failed: '' err400)"
    and d': "errors_As err400 = Some (ResponseError 400 ''PUT: 400 Bad Request'' (Some ''InvalidTemplate''))"
    and e: "sdkGetAtSubscriptionScope exampleClient ''a'' = Inr deploymentA"
    and f: "sdkGet exampleClient ''rg'' ''a'' = Inr deploymentA"
    by (simp_all add: exampleClient_def err404_def err400_def errTimeout_def)
  from C8_get_deployment [of exampleClient "''zz''" "''rg''"]
       C8_get_deployment [of exampleClient "''slow''" "''rg''"]
       C8_get_deployment [of exampleClient "''bad''" "''rg''"]
       C8_get_deployment [of exampleClient "''a''" "''rg''"]
       a a' b c c' d d' e f
  show ?thesis by simp
qed

subsection \<open>Listing deployments\<close>

lemma listPages_ok:
  "listPages (Slice acc) (map Inr pages)
     = (Slice (acc @ concat (map (\<lambda>p. elems (Value p)) pages)), None)"
  by (induction pages arbitrary: acc) auto

lemma listPages_fail:
  "listPages (Slice acc) (map Inr pages @ Inl e # rest) = (NilSlice, Some e)"
  by (induction pages arbitrary: acc) auto

lemma pager_shape:
  "(\<exists>pages. (pager :: Pager) = map Inr pages)
   \<or> (\<exists>pages e rest. pager = map Inr pages @ Inl e # rest)"
proof (induction pager)
  case Nil
  have "([] :: Pager) = map Inr []" by simp
  then show ?case by (intro disjI1 exI)
next
  case (Cons x pager)
  show ?case
  proof (cases x)
    case (Inl e)
    then have "x # pager = map Inr [] @ Inl e # pager" by simp
    then show ?thesis by (intro disjI2 exI)
  next
    case (Inr page)
    from Cons show ?thesis
    proof
      assume "\<exists>pages. pager = map Inr pages"
      then obtain pages where "pager = map Inr pages" ..
      with Inr have "x # pager = map Inr (page # pages)" by simp
      then show ?thesis by (intro disjI1 exI)
    next
      assume "\<exists>pages e rest. pager = map Inr pages @ Inl e # rest"
      then obtain pages e rest where "pager = map Inr pages @ Inl e # rest" by blast
      with Inr have "x # pager = map Inr (page # pages) @ Inl e # rest" by simp
      then show ?thesis by (intro disjI2 exI)
    qed
  qed
qed

lemma listPages_error_in_pager:
  "snd (listPages acc pager) = Some e \<Longrightarrow> Inl e \<in> set pager"
proof (induction acc pager rule: listPages.induct)
  case (1 results)
  then show ?case by simp
next
  case (2 results err pager)
  then show ?case by simp
next
  case (3 results page pager)
  then show ?case by simp
qed

text \<open>
  C3. For every sequence of pages the pager yields, the two list operations return the
  concatenation, in page order, of the pages' \<open>Value\<close> slices, as a non-nil slice (empty
  when there are no pages); when fetching a page fails they return that page's error as it
  is, with a nil slice, whatever was accumulated before. By \<open>pager_shape\<close> every pager is
  of one of the two forms.
\<close>

theorem C3_list_deployments:
  "(sdkNewListAtSubscriptionScopePager ds = map Inr pages \<longrightarrow>
      ListSubscriptionDeployments ds
        = (Slice (concat (map (\<lambda>p. elems (Value p)) pages)), None))
   \<and> (sdkNewListAtSubscriptionScopePager ds = map Inr pages @ Inl e # rest \<longrightarrow>
      ListSubscriptionDeployments ds = (NilSlice, Some e))
   \<and> (sdkNewListByResourceGroupPager ds g = map Inr pages \<longrightarrow>
      ListResourceGroupDeployments ds g
        = (Slice (concat (map (\<lambda>p. elems (Value p)) pages)), None))
   \<and> (sdkNewListByResourceGroupPager ds g = map Inr pages @ Inl e # rest \<longrightarrow>
      ListResourceGroupDeployments ds g = (NilSlice, Some e))"
  using listPages_ok [of "[]"] listPages_fail [of "[]"]
  by (simp add: ListSubscriptionDeployments_def ListResourceGroupDeployments_def)

text \<open>
  Witness for C3: three pages, one of them with a nil \<open>Value\<close>; a pager that fails on
  its second page; a pager without pages.
\<close>

theorem C3_list_deployments_witness:
  "ListSubscriptionDeployments exampleClient
     = (Slice [deploymentA, deploymentB, deploymentA], None)
   \<and> ListResourceGroupDeployments exampleClient ''rg'' = (NilSlice, Some errTimeout)
   \<and> ListResourceGroupDeployments exampleClient ''other'' = (Slice [], None)"
proof -
  have p1: "sdkNewListAtSubscriptionScopePager exampleClient
              = map Inr [DeploymentListResult (Slice [deploymentA]),
                         DeploymentListResult NilSlice,
                         DeploymentListResult (Slice [deploymentB, deploymentA])]"
    by (simp add: exampleClient_def)
  have p2: "sdkNewListByResourceGroupPager exampleClient ''rg''
              = map Inr [DeploymentListResult (Slice [deploymentA])]
                @ Inl errTimeout # [Inr (DeploymentListResult (Slice [deploymentB]))]"
    by (simp add: exampleClient_def)
  have p3: "sdkNewListByResourceGroupPager exampleClient ''other'' = map Inr []"
    by (simp add: exampleClient_def)
  have "ListSubscriptionDeployments exampleClient
          = (Slice [deploymentA, deploymentB, deploymentA], None)"
    using C3_list_deployments [THEN conjunct1, THEN mp, OF p1] by simp
  moreover have "ListResourceGroupDeployments exampleClient ''rg'' = (NilSlice, Some errTimeout)"
    using C3_list_deployments [THEN conjunct2, THEN conjunct2, THEN conjunct2, THEN mp, OF p2] .
  moreover have "ListResourceGroupDeployments exampleClient ''other'' = (Slice [], None)"
    using C3_list_deployments [THEN conjunct2, THEN conjunct2, THEN conjunct1, THEN mp, OF p3]
    by simp
  ultimately show ?thesis by simp
qed

subsection \<open>Long-running operations\<close>

lemma createDeploymentError_pollError: "createDeploymentError e = pollError e"
  by (simp add: createDeploymentError_def pollError_def NewAzureDeploymentError_def
           split: option.splits)

lemma DeployToSubscription_run:
  "DeployToSubscription ds l n t p tags =
     (case sdkBeginCreateOrUpdateAtSubscriptionScope ds n (subscriptionDeployment l t p tags) of
        Inl e \<Rightarrow> (Inl (Errorf ''starting deployment to subscription: '' e),
                  [BeginCreateOrUpdateAtSubscriptionScope n (subscriptionDeployment l t p tags)])
      | Inr op \<Rightarrow>
          (case PollUntilDone op of
             Inl e \<Rightarrow> Inl (Errorf ''deploying to subscription:\<newline>\<newline>Deployment Error Details:\<newline>''
                            (pollError e))
           | Inr r \<Rightarrow> Inr r,
           [BeginCreateOrUpdateAtSubscriptionScope n (subscriptionDeployment l t p tags),
            CallPollUntilDone]))"
  by (simp add: DeployToSubscription_def subscriptionDeployment_def
                createDeploymentError_pollError Let_def split: sum.splits)

lemma DeployToResourceGroup_run:
  "DeployToResourceGroup ds g n t p tags =
     (case sdkBeginCreateOrUpdate ds g n (resourceGroupDeployment t p tags) of
        Inl e \<Rightarrow> (Inl (Errorf ''starting deployment to resource group: '' e),
                  [BeginCreateOrUpdate g n (resourceGroupDeployment t p tags)])
      | Inr op \<Rightarrow>
          (case PollUntilDone op of
             Inl e \<Rightarrow> Inl (Errorf ''deploying to resource group:\<newline>\<newline>Deployment Error Details:\<newline>''
                            (pollError e))
           | Inr r \<Rightarrow> Inr r,
           [BeginCreateOrUpdate g n (resourceGroupDeployment t p tags), CallPollUntilDone]))"
  by (simp add: DeployToResourceGroup_def resourceGroupDeployment_def
                createDeploymentError_pollError Let_def split: sum.splits)

lemma WhatIfDeployToSubscription_run:
  "WhatIfDeployToSubscription ds l n t p =
     (case sdkBeginWhatIfAtSubscriptionScope ds n (subscriptionWhatIf l t p) of
        Inl e \<Rightarrow> (Inl (Errorf ''starting deployment to subscription: '' e),
                  [BeginWhatIfAtSubscriptionScope n (subscriptionWhatIf l t p)])
      | Inr op \<Rightarrow>
          (case PollUntilDone op of
             Inl e \<Rightarrow> Inl (Errorf ''deploying to subscription:\<newline>\<newline>Deployment Error Details:\<newline>''
                            (pollError e))
           | Inr r \<Rightarrow> Inr r,
           [BeginWhatIfAtSubscriptionScope n (subscriptionWhatIf l t p), CallPollUntilDone]))"
  by (simp add: WhatIfDeployToSubscription_def subscriptionWhatIf_def
                createDeploymentError_pollError Let_def split: sum.splits)

lemma WhatIfDeployToResourceGroup_run:
  "WhatIfDeployToResourceGroup ds g n t p =
     (case sdkBeginWhatIf ds g n (resourceGroupWhatIf t p) of
        Inl e \<Rightarrow> (Inl (Errorf ''starting deployment to resource group: '' e),
                  [BeginWhatIf g n (resourceGroupWhatIf t p)])
      | Inr op \<Rightarrow>
          (case PollUntilDone op of
             Inl e \<Rightarrow> Inl (Errorf ''deploying to resource group:\<newline>\<newline>Deployment Error Details:\<newline>''
                            (pollError e))
           | Inr r \<Rightarrow> Inr r,
           [BeginWhatIf g n (resourceGroupWhatIf t p), CallPollUntilDone]))"
  by (simp add: WhatIfDeployToResourceGroup_def resourceGroupWhatIf_def
                createDeploymentError_pollError Let_def split: sum.splits)

lemma stateAfter_dryRun:
  "dryRun effect \<Longrightarrow> \<forall>c \<in> set calls. \<not> changesDeployments c \<Longrightarrow>
     stateAfter effect st calls = st"
  by (induction calls arbitrary: st) (simp_all add: stateAfter_def dryRun_def)

text \<open>
  C4. Each of the two what-if operations is determined by the SDK's \<^verbatim>\<open>BeginWhatIf*\<close>
  function applied to the \<open>DeploymentWhatIf\<close> payload shaped from its arguments, and by
  the poll of the poller that returns: it sends that what-if request, then the poll when
  the request was accepted, and nothing else. Its outcome does not depend on the SDK's
  create-or-update and delete functions, no request it sends is a create-or-update or
  delete request, and a service that treats a what-if as a dry run is in the same state
  after the operation as before.
\<close>

theorem C4_what_if_only:
  "WhatIfDeployToSubscription ds l n t p =
     (case sdkBeginWhatIfAtSubscriptionScope ds n (subscriptionWhatIf l t p) of
        Inl e \<Rightarrow> (Inl (Errorf ''starting deployment to subscription: '' e),
                  [BeginWhatIfAtSubscriptionScope n (subscriptionWhatIf l t p)])
      | Inr op \<Rightarrow>
          (case PollUntilDone op of
             Inl e \<Rightarrow> Inl (Errorf ''deploying to subscription:\<newline>\<newline>Deployment Error Details:\<newline>''
                            (pollError e))
           | Inr r \<Rightarrow> Inr r,
           [BeginWhatIfAtSubscriptionScope n (subscriptionWhatIf l t p), CallPollUntilDone]))
   \<and> WhatIfDeployToResourceGroup ds g n t p =
     (case sdkBeginWhatIf ds g n (resourceGroupWhatIf t p) of
        Inl e \<Rightarrow> (Inl (Errorf ''starting deployment to resource group: '' e),
                  [BeginWhatIf g n (resourceGroupWhatIf t p)])
      | Inr op \<Rightarrow>
          (case PollUntilDone op of
             Inl e \<Rightarrow> Inl (Errorf ''deploying to resource group:\<newline>\<newline>Deployment Error Details:\<newline>''
                            (pollError e))
           | Inr r \<Rightarrow> Inr r,
           [BeginWhatIf g n (resourceGroupWhatIf t p), CallPollUntilDone]))
   \<and> WhatIfDeployToSubscription
         (ds\<lparr>sdkBeginCreateOrUpdateAtSubscriptionScope := createAtSubscription,
             sdkBeginCreateOrUpdate := create,
             sdkBeginDeleteAtSubscriptionScope := delete\<rparr>) l n t p
       = WhatIfDeployToSubscription ds l n t p
   \<and> WhatIfDeployToResourceGroup
         (ds\<lparr>sdkBeginCreateOrUpdateAtSubscriptionScope := createAtSubscription,
             sdkBeginCreateOrUpdate := create,
             sdkBeginDeleteAtSubscriptionScope := delete\<rparr>) g n t p
       = WhatIfDeployToResourceGroup ds g n t p
   \<and> (snd (WhatIfDeployToSubscription ds l n t p)
        = [BeginWhatIfAtSubscriptionScope n (subscriptionWhatIf l t p)]
      \<or> snd (WhatIfDeployToSubscription ds l n t p)
        = [BeginWhatIfAtSubscriptionScope n (subscriptionWhatIf l t p), CallPollUntilDone])
   \<and> (snd (WhatIfDeployToResourceGroup ds g n t p)
        = [BeginWhatIf g n (resourceGroupWhatIf t p)]
      \<or> snd (WhatIfDeployToResourceGroup ds g n t p)
        = [BeginWhatIf g n (resourceGroupWhatIf t p), CallPollUntilDone])
   \<and> (\<forall>c \<in> set (snd (WhatIfDeployToSubscription ds l n t p)). \<not> changesDeployments c)
   \<and> (\<forall>c \<in> set (snd (WhatIfDeployToResourceGroup ds g n t p)). \<not> changesDeployments c)
   \<and> (dryRun effect \<longrightarrow>
        stateAfter effect st (snd (WhatIfDeployToSubscription ds l n t p)) = st)
   \<and> (dryRun effect \<longrightarrow>
        stateAfter effect st (snd (WhatIfDeployToResourceGroup ds g n t p)) = st)"
proof -
  have sub: "\<forall>c \<in> set (snd (WhatIfDeployToSubscription ds l n t p)). \<not> changesDeployments c"
    by (simp add: WhatIfDeployToSubscription_run split: sum.splits)
  have grp: "\<forall>c \<in> set (snd (WhatIfDeployToResourceGroup ds g n t p)). \<not> changesDeployments c"
    by (simp add: WhatIfDeployToResourceGroup_run split: sum.splits)
  have frame1: "WhatIfDeployToSubscription
         (ds\<lparr>sdkBeginCreateOrUpdateAtSubscriptionScope := createAtSubscription,
             sdkBeginCreateOrUpdate := create,
             sdkBeginDeleteAtSubscriptionScope := delete\<rparr>) l n t p
       = WhatIfDeployToSubscription ds l n t p"
    by (simp add: WhatIfDeployToSubscription_def)
  have frame2: "WhatIfDeployToResourceGroup
         (ds\<lparr>sdkBeginCreateOrUpdateAtSubscriptionScope := createAtSubscription,
             sdkBeginCreateOrUpdate := create,
             sdkBeginDeleteAtSubscriptionScope := delete\<rparr>) g n t p
       = WhatIfDeployToResourceGroup ds g n t p"
    by (simp add: WhatIfDeployToResourceGroup_def)
  have shape1: "snd (WhatIfDeployToSubscription ds l n t p)
        = [BeginWhatIfAtSubscriptionScope n (subscriptionWhatIf l t p)]
      \<or> snd (WhatIfDeployToSubscription ds l n t p)
        = [BeginWhatIfAtSubscriptionScope n (subscriptionWhatIf l t p), CallPollUntilDone]"
    by (simp add: WhatIfDeployToSubscription_run split: sum.splits)
  have shape2: "snd (WhatIfDeployToResourceGroup ds g n t p)
        = [BeginWhatIf g n (resourceGroupWhatIf t p)]
      \<or> snd (WhatIfDeployToResourceGroup ds g n t p)
        = [BeginWhatIf g n (resourceGroupWhatIf t p), CallPollUntilDone]"
    by (simp add: WhatIfDeployToResourceGroup_run split: sum.splits)
  from sub grp frame1 frame2 shape1 shape2
    WhatIfDeployToSubscription_run [of ds l n t p]
    WhatIfDeployToResourceGroup_run [of ds g n t p]
    stateAfter_dryRun [of effect _ st]
  show ?thesis by blast
qed

lemma dryRun_exampleService: "dryRun exampleService"
  unfolding dryRun_def
proof (intro allI impI)
  fix c :: SdkCall and st :: "string list"
  assume "\<not> changesDeployments c"
  then show "exampleService c st = st" by (cases c) simp_all
qed

text \<open>
  Witness for C4: an accepted what-if at subscription scope and one refused at resource
  group scope leave the example service as it was; a deployment does not.
\<close>

theorem C4_what_if_only_witness:
  "WhatIfDeployToSubscription exampleClient ''westus'' ''a'' ''{}'' []
     = (Inr whatIfResult,
        [BeginWhatIfAtSubscriptionScope ''a'' (subscriptionWhatIf ''westus'' ''{}'' []),
         CallPollUntilDone])
   \<and> WhatIfDeployToResourceGroup exampleClient ''rg'' ''slow'' ''{}'' []
     = (Inl (Errorf ''starting deployment to resource group: '' errTimeout),
        [BeginWhatIf ''rg'' ''slow'' (resourceGroupWhatIf ''{}'' [])])
   \<and> stateAfter exampleService [''b'']
        (snd (WhatIfDeployToSubscription exampleClient ''westus'' ''a'' ''{}'' [])) = [''b'']
   \<and> stateAfter exampleService [''b'']
        (snd (WhatIfDeployToResourceGroup exampleClient ''rg'' ''slow'' ''{}'' [])) = [''b'']
   \<and> stateAfter exampleService [''b'']
        (snd (DeployToSubscription exampleClient ''westus'' ''a'' ''{}'' [] [])) = [''a'', ''b'']"
proof -
  note a = C4_what_if_only [where ds = exampleClient and l = "''westus''" and n = "''a''" and t = "''{}''"
                  and p = "[]" and g = "''rg''" and effect = exampleService and st = "[''b'']"
                  and createAtSubscription = "\<lambda>n d. Inl errTimeout"
                  and create = "\<lambda>g n d. Inl errTimeout" and delete = "\<lambda>n. Inl errTimeout"]
  note b = C4_what_if_only [where ds = exampleClient and l = "''westus''" and n = "''slow''" and t = "''{}''"
                  and p = "[]" and g = "''rg''" and effect = exampleService and st = "[''b'']"
                  and createAtSubscription = "\<lambda>n d. Inl errTimeout"
                  and create = "\<lambda>g n d. Inl errTimeout" and delete = "\<lambda>n. Inl errTimeout"]
  have begin1: "sdkBeginWhatIfAtSubscriptionScope exampleClient ''a''
                  (subscriptionWhatIf ''westus'' ''{}'' []) = Inr (Poller (Inr whatIfResult))"
    and begin2: "sdkBeginWhatIf exampleClient ''rg'' ''slow'' (resourceGroupWhatIf ''{}'' [])
                  = Inl errTimeout"
    by (simp_all add: exampleClient_def)
  have deploy: "stateAfter exampleService [''b'']
        (snd (DeployToSubscription exampleClient ''westus'' ''a'' ''{}'' [] [])) = [''a'', ''b'']"
    by (simp add: DeployToSubscription_def exampleClient_def stateAfter_def Let_def)
  have c1: "WhatIfDeployToSubscription exampleClient ''westus'' ''a'' ''{}'' []
     = (Inr whatIfResult,
        [BeginWhatIfAtSubscriptionScope ''a'' (subscriptionWhatIf ''westus'' ''{}'' []),
         CallPollUntilDone])"
    using a [THEN conjunct1] begin1 by simp
  have c2: "WhatIfDeployToResourceGroup exampleClient ''rg'' ''slow'' ''{}'' []
     = (Inl (Errorf ''starting deployment to resource group: '' errTimeout),
        [BeginWhatIf ''rg'' ''slow'' (resourceGroupWhatIf ''{}'' [])])"
    using b [THEN conjunct2, THEN conjunct1] begin2 by simp
  have c3: "stateAfter exampleService [''b'']
        (snd (WhatIfDeployToSubscription exampleClient ''westus'' ''a'' ''{}'' [])) = [''b'']"
    using a [THEN conjunct2, THEN conjunct2, THEN conjunct2, THEN conjunct2, THEN conjunct2,
             THEN conjunct2, THEN conjunct2, THEN conjunct2, THEN conjunct1, THEN mp,
             OF dryRun_exampleService] .
  have c4: "stateAfter exampleService [''b'']
        (snd (WhatIfDeployToResourceGroup exampleClient ''rg'' ''slow'' ''{}'' [])) = [''b'']"
    using b [THEN conjunct2, THEN conjunct2, THEN conjunct2, THEN conjunct2, THEN conjunct2,
             THEN conjunct2, THEN conjunct2, THEN conjunct2, THEN conjunct2, THEN mp,
             OF dryRun_exampleService] .
  from c1 c2 c3 c4 deploy show ?thesis by (intro conjI)
qed

lemma DeleteSubscriptionDeployment_run:
  "DeleteSubscriptionDeployment ds n =
     (case sdkBeginDeleteAtSubscriptionScope ds n of
        Inl e \<Rightarrow> (Some (Errorf ''starting to delete deployment: '' e),
                  [BeginDeleteAtSubscriptionScope n])
      | Inr op \<Rightarrow>
          (case PollUntilDone op of
             Inl e \<Rightarrow> Some (Errorf ''deleting deployment operation: '' e)
           | Inr u \<Rightarrow> None,
           [BeginDeleteAtSubscriptionScope n, CallPollUntilDone]))"
  by (simp add: DeleteSubscriptionDeployment_def)

lemma pollError_unclassified: "errors_As e = None \<Longrightarrow> pollError e = e"
  by (simp add: pollError_def)

lemma pollError_classified:
  "errors_As e = Some r \<Longrightarrow>
     pollError e = AzureDeploymentError (case RawResponseBody r of Some body \<Rightarrow> body
                                                                   | None \<Rightarrow> ErrorText r)"
  by (simp add: pollError_def)

text \<open>
  C2, as amended. Each of the five long-running operations calls the SDK's \<^verbatim>\<open>Begin*\<close>
  and, when that succeeds, \<^verbatim>\<open>PollUntilDone\<close> once on the poller it got. It succeeds
  exactly when both succeed and then returns the poller's result. A failing \<^verbatim>\<open>Begin*\<close>
  is returned wrapped with a context message; so is a failing poll of
  \<open>DeleteSubscriptionDeployment\<close>. A failing poll of the four deploying operations is
  returned as \<open>pollError\<close> of it wrapped with a context message: the error itself when it
  carries no response error, otherwise an Azure deployment error made from the response
  body, which no longer wraps the poller's error.
\<close>

theorem C2_long_running_operations:
  "(snd (DeployToSubscription ds l n t p tags) =
      (case sdkBeginCreateOrUpdateAtSubscriptionScope ds n (subscriptionDeployment l t p tags) of
         Inl e \<Rightarrow> [BeginCreateOrUpdateAtSubscriptionScope n (subscriptionDeployment l t p tags)]
       | Inr op \<Rightarrow> [BeginCreateOrUpdateAtSubscriptionScope n (subscriptionDeployment l t p tags),
                     CallPollUntilDone]))
   \<and> (sdkBeginCreateOrUpdateAtSubscriptionScope ds n (subscriptionDeployment l t p tags) = Inl e
        \<longrightarrow> fst (DeployToSubscription ds l n t p tags)
              = Inl (Errorf ''starting deployment to subscription: '' e))
   \<and> (sdkBeginCreateOrUpdateAtSubscriptionScope ds n (subscriptionDeployment l t p tags) = Inr dp
        \<and> PollUntilDone dp = Inl e
        \<longrightarrow> fst (DeployToSubscription ds l n t p tags)
              = Inl (Errorf ''deploying to subscription:\<newline>\<newline>Deployment Error Details:\<newline>''
                       (pollError e)))
   \<and> (sdkBeginCreateOrUpdateAtSubscriptionScope ds n (subscriptionDeployment l t p tags) = Inr dp
        \<and> PollUntilDone dp = Inr d
        \<longrightarrow> fst (DeployToSubscription ds l n t p tags) = Inr d)
   \<and> (snd (DeployToResourceGroup ds g n t p tags) =
      (case sdkBeginCreateOrUpdate ds g n (resourceGroupDeployment t p tags) of
         Inl e \<Rightarrow> [BeginCreateOrUpdate g n (resourceGroupDeployment t p tags)]
       | Inr op \<Rightarrow> [BeginCreateOrUpdate g n (resourceGroupDeployment t p tags),
                     CallPollUntilDone]))
   \<and> (sdkBeginCreateOrUpdate ds g n (resourceGroupDeployment t p tags) = Inl e
        \<longrightarrow> fst (DeployToResourceGroup ds g n t p tags)
              = Inl (Errorf ''starting deployment to resource group: '' e))
   \<and> (sdkBeginCreateOrUpdate ds g n (resourceGroupDeployment t p tags) = Inr dp
        \<and> PollUntilDone dp = Inl e
        \<longrightarrow> fst (DeployToResourceGroup ds g n t p tags)
              = Inl (Errorf ''deploying to resource group:\<newline>\<newline>Deployment Error Details:\<newline>''
                       (pollError e)))
   \<and> (sdkBeginCreateOrUpdate ds g n (resourceGroupDeployment t p tags) = Inr dp
        \<and> PollUntilDone dp = Inr d
        \<longrightarrow> fst (DeployToResourceGroup ds g n t p tags) = Inr d)
   \<and> (snd (WhatIfDeployToSubscription ds l n t p) =
      (case sdkBeginWhatIfAtSubscriptionScope ds n (subscriptionWhatIf l t p) of
         Inl e \<Rightarrow> [BeginWhatIfAtSubscriptionScope n (subscriptionWhatIf l t p)]
       | Inr op \<Rightarrow> [BeginWhatIfAtSubscriptionScope n (subscriptionWhatIf l t p),
                     CallPollUntilDone]))
   \<and> (sdkBeginWhatIfAtSubscriptionScope ds n (subscriptionWhatIf l t p) = Inl e
        \<longrightarrow> fst (WhatIfDeployToSubscription ds l n t p)
              = Inl (Errorf ''starting deployment to subscription: '' e))
   \<and> (sdkBeginWhatIfAtSubscriptionScope ds n (subscriptionWhatIf l t p) = Inr wp
        \<and> PollUntilDone wp = Inl e
        \<longrightarrow> fst (WhatIfDeployToSubscription ds l n t p)
              = Inl (Errorf ''deploying to subscription:\<newline>\<newline>Deployment Error Details:\<newline>''
                       (pollError e)))
   \<and> (sdkBeginWhatIfAtSubscriptionScope ds n (subscriptionWhatIf l t p) = Inr wp
        \<and> PollUntilDone wp = Inr w
        \<longrightarrow> fst (WhatIfDeployToSubscription ds l n t p) = Inr w)
   \<and> (snd (WhatIfDeployToResourceGroup ds g n t p) =
      (case sdkBeginWhatIf ds g n (resourceGroupWhatIf t p) of
         Inl e \<Rightarrow> [BeginWhatIf g n (resourceGroupWhatIf t p)]
       | Inr op \<Rightarrow> [BeginWhatIf g n (resourceGroupWhatIf t p), CallPollUntilDone]))
   \<and> (sdkBeginWhatIf ds g n (resourceGroupWhatIf t p) = Inl e
        \<longrightarrow> fst (WhatIfDeployToResourceGroup ds g n t p)
              = Inl (Errorf ''starting deployment to resource group: '' e))
   \<and> (sdkBeginWhatIf ds g n (resourceGroupWhatIf t p) = Inr wp \<and> PollUntilDone wp = Inl e
        \<longrightarrow> fst (WhatIfDeployToResourceGroup ds g n t p)
              = Inl (Errorf ''deploying to resource group:\<newline>\<newline>Deployment Error Details:\<newline>''
                       (pollError e)))
   \<and> (sdkBeginWhatIf ds g n (resourceGroupWhatIf t p) = Inr wp \<and> PollUntilDone wp = Inr w
        \<longrightarrow> fst (WhatIfDeployToResourceGroup ds g n t p) = Inr w)
   \<and> (snd (DeleteSubscriptionDeployment ds n) =
      (case sdkBeginDeleteAtSubscriptionScope ds n of
         Inl e \<Rightarrow> [BeginDeleteAtSubscriptionScope n]
       | Inr op \<Rightarrow> [BeginDeleteAtSubscriptionScope n, CallPollUntilDone]))
   \<and> (sdkBeginDeleteAtSubscriptionScope ds n = Inl e
        \<longrightarrow> fst (DeleteSubscriptionDeployment ds n)
              = Some (Errorf ''starting to delete deployment: '' e))
   \<and> (sdkBeginDeleteAtSubscriptionScope ds n = Inr up \<and> PollUntilDone up = Inl e
        \<longrightarrow> fst (DeleteSubscriptionDeployment ds n)
              = Some (Errorf ''deleting deployment operation: '' e))
   \<and> (sdkBeginDeleteAtSubscriptionScope ds n = Inr up \<and> PollUntilDone up = Inr u
        \<longrightarrow> fst (DeleteSubscriptionDeployment ds n) = None)
   \<and> (errors_As e = None \<longrightarrow> pollError e = e)
   \<and> (errors_As e = Some r \<longrightarrow>
        pollError e = AzureDeploymentError (case RawResponseBody r of Some body \<Rightarrow> body
                                                                      | None \<Rightarrow> ErrorText r))"
proof -
  show ?thesis
    unfolding DeployToSubscription_run DeployToResourceGroup_run
      WhatIfDeployToSubscription_run WhatIfDeployToResourceGroup_run
      DeleteSubscriptionDeployment_run
    by (intro conjI impI; simp add: pollError_def split: sum.splits)
qed

text \<open>
  C2 as stated fails: polling \<open>DeployToSubscription\<close> fails with a response error of
  status 400, and the error returned does not wrap it.
\<close>

theorem C2_counterexample:
  "sdkBeginCreateOrUpdateAtSubscriptionScope exampleClient ''bad''
       (subscriptionDeployment ''westus'' ''{}'' [] [])
     = Inr (Poller (Inl err400))
   \<and> fst (DeployToSubscription exampleClient ''westus'' ''bad'' ''{}'' [] [])
     = Inl (Errorf ''deploying to subscription:\<newline>\<newline>Deployment Error Details:\<newline>''
              (AzureDeploymentError ''InvalidTemplate''))
   \<and> \<not> wraps (Errorf ''deploying to subscription:\<newline>\<newline>Deployment Error Details:\<newline>''
                 (AzureDeploymentError ''InvalidTemplate'')) err400"
  by (simp add: DeployToSubscription_def exampleClient_def err400_def createDeploymentError_def
                NewAzureDeploymentError_def Let_def)


text \<open>Witness for C2: each kind of outcome at the example client.\<close>

theorem C2_long_running_operations_witness:
  "fst (DeployToSubscription exampleClient ''westus'' ''slow'' ''{}'' [] [])
     = Inl (Errorf ''starting deployment to subscription: '' errTimeout)
   \<and> fst (DeployToSubscription exampleClient ''westus'' ''bad'' ''{}'' [] [])
     = Inl (Errorf ''deploying to subscription:\<newline>\<newline>Deployment Error Details:\<newline>''
              (AzureDeploymentError ''InvalidTemplate''))
   \<and> fst (DeployToResourceGroup exampleClient ''rg'' ''bad'' ''{}'' [] [])
     = Inl (Errorf ''deploying to resource group:\<newline>\<newline>Deployment Error Details:\<newline>''
              errTimeout)
   \<and> fst (DeployToResourceGroup exampleClient ''rg'' ''b'' ''{}'' [] []) = Inr deploymentB
   \<and> fst (WhatIfDeployToSubscription exampleClient ''westus'' ''a'' ''{}'' []) = Inr whatIfResult
   \<and> fst (WhatIfDeployToResourceGroup exampleClient ''rg'' ''slow'' ''{}'' [])
     = Inl (Errorf ''starting deployment to resource group: '' errTimeout)
   \<and> fst (DeleteSubscriptionDeployment exampleClient ''bad'')
     = Some (Errorf ''deleting deployment operation: '' err400)
   \<and> fst (DeleteSubscriptionDeployment exampleClient ''a'') = None
   \<and> snd (DeleteSubscriptionDeployment exampleClient ''a'')
     = [BeginDeleteAtSubscriptionScope ''a'', CallPollUntilDone]"
proof -
  have r: "errors_As err400
             = Some (ResponseError 400 ''PUT: 400 Bad Request'' (Some ''InvalidTemplate''))"
    and r': "errors_As errTimeout = None"
    by (simp_all add: err400_def errTimeout_def)
  note slow = C2_long_running_operations
    [where ds = exampleClient and l = "''westus''" and n = "''slow''" and t = "''{}''"
       and p = "[]" and tags = "[]" and g = "''rg''" and e = errTimeout]
  note bad = C2_long_running_operations
    [where ds = exampleClient and l = "''westus''" and n = "''bad''" and t = "''{}''"
       and p = "[]" and tags = "[]" and g = "''rg''" and e = err400
       and dp = "Poller (Inl err400)" and up = "Poller (Inl err400)"
       and r = "ResponseError 400 ''PUT: 400 Bad Request'' (Some ''InvalidTemplate'')"]
  note bad' = C2_long_running_operations
    [where ds = exampleClient and l = "''westus''" and n = "''bad''" and t = "''{}''"
       and p = "[]" and tags = "[]" and g = "''rg''" and e = errTimeout
       and dp = "Poller (Inl errTimeout)"]
  note ok = C2_long_running_operations
    [where ds = exampleClient and l = "''westus''" and n = "''b''" and t = "''{}''"
       and p = "[]" and tags = "[]" and g = "''rg''"
       and dp = "Poller (Inr deploymentB)" and d = deploymentB]
  note ok' = C2_long_running_operations
    [where ds = exampleClient and l = "''westus''" and n = "''a''" and t = "''{}''"
       and p = "[]" and tags = "[]" and g = "''rg''"
       and wp = "Poller (Inr whatIfResult)" and w = whatIfResult
       and up = "Poller (Inr ())" and u = "()"]
  from slow bad bad' ok ok' r r' show ?thesis
    by (simp add: exampleClient_def)
qed

subsection \<open>Error handling of the wrapper\<close>

text \<open>
  C1 as stated fails: \<open>GetSubscriptionDeployment\<close> inspects the SDK's error. For a
  response error of status 404 it returns the sentinel, which does not wrap the SDK's
  error; for a timeout it returns the SDK's error wrapped.
\<close>

theorem C1_counterexample:
  "sdkGetAtSubscriptionScope exampleClient ''zz'' = Inl err404
   \<and> GetSubscriptionDeployment exampleClient ''zz'' = Inl ErrDeploymentNotFound
   \<and> \<not> wraps ErrDeploymentNotFound err404
   \<and> sdkGetAtSubscriptionScope exampleClient ''slow'' = Inl errTimeout
   \<and> GetSubscriptionDeployment exampleClient ''slow''
       = Inl (Errorf ''getting deployment from subscription: '' errTimeout)"
  by (simp add: GetSubscriptionDeployment_def exampleClient_def err404_def errTimeout_def)

lemma Get_failure:
  "sdkGetAtSubscriptionScope ds n = Inl e \<Longrightarrow>
     GetSubscriptionDeployment ds n
       = Inl (if isNotFound e then ErrDeploymentNotFound
              else Errorf ''getting deployment from subscription: '' e)"
  "sdkGet ds g n = Inl e \<Longrightarrow>
     GetResourceGroupDeployment ds g n
       = Inl (if isNotFound e then ErrDeploymentNotFound
              else Errorf ''getting deployment from resource group: '' e)"
  by (simp_all add: GetSubscriptionDeployment_def GetResourceGroupDeployment_def isNotFound_def
               split: option.splits)

text \<open>
  C1, as amended. Pagination and polling are the SDK's: a list operation returns the
  pager's pages, or the error of the first page that fails, as it is; a long-running
  operation sends one \<^verbatim>\<open>Begin*\<close> request, polls the poller once, and returns the
  poller's result. The wrapper classifies an SDK error in two places, both by the response
  error it carries: the two get operations return \<open>ErrDeploymentNotFound\<close> when its
  status is 404, and the four deploying operations turn a polling error that carries one
  into an Azure deployment error made from the response body. In every other failure the
  SDK's error is returned as it is (template hash, listing) or wrapped with a context
  message; an error that carries no response error is never classified.
\<close>

theorem C1_error_handling:
  "(sdkCalculateTemplateHash ds t = Inl e \<longrightarrow> CalculateTemplateHash ds t = Inl e)
   \<and> CalculateTemplateHash ds t = sdkCalculateTemplateHash ds t
   \<and> (sdkNewListAtSubscriptionScopePager ds = map Inr pages @ Inl e # rest
        \<longrightarrow> ListSubscriptionDeployments ds = (NilSlice, Some e))
   \<and> (sdkNewListByResourceGroupPager ds g = map Inr pages @ Inl e # rest
        \<longrightarrow> ListResourceGroupDeployments ds g = (NilSlice, Some e))
   \<and> (sdkNewListAtSubscriptionScopePager ds = map Inr pages
        \<longrightarrow> ListSubscriptionDeployments ds
              = (Slice (concat (map (\<lambda>page. elems (Value page)) pages)), None))
   \<and> (sdkNewListByResourceGroupPager ds g = map Inr pages
        \<longrightarrow> ListResourceGroupDeployments ds g
              = (Slice (concat (map (\<lambda>page. elems (Value page)) pages)), None))
   \<and> (snd (ListSubscriptionDeployments ds) = Some e
        \<longrightarrow> Inl e \<in> set (sdkNewListAtSubscriptionScopePager ds))
   \<and> (snd (ListResourceGroupDeployments ds g) = Some e
        \<longrightarrow> Inl e \<in> set (sdkNewListByResourceGroupPager ds g))
   \<and> (sdkGetAtSubscriptionScope ds n = Inr d \<longrightarrow> GetSubscriptionDeployment ds n = Inr d)
   \<and> (sdkGet ds g n = Inr d \<longrightarrow> GetResourceGroupDeployment ds g n = Inr d)
   \<and> (sdkBeginCreateOrUpdateAtSubscriptionScope ds n (subscriptionDeployment l t p tags)
          = Inr (Poller (Inr d))
        \<longrightarrow> fst (DeployToSubscription ds l n t p tags) = Inr d)
   \<and> (sdkBeginCreateOrUpdate ds g n (resourceGroupDeployment t p tags) = Inr (Poller (Inr d))
        \<longrightarrow> fst (DeployToResourceGroup ds g n t p tags) = Inr d)
   \<and> (sdkBeginWhatIfAtSubscriptionScope ds n (subscriptionWhatIf l t p) = Inr (Poller (Inr w))
        \<longrightarrow> fst (WhatIfDeployToSubscription ds l n t p) = Inr w)
   \<and> (sdkBeginWhatIf ds g n (resourceGroupWhatIf t p) = Inr (Poller (Inr w))
        \<longrightarrow> fst (WhatIfDeployToResourceGroup ds g n t p) = Inr w)
   \<and> (sdkBeginDeleteAtSubscriptionScope ds n = Inr (Poller (Inr u))
        \<longrightarrow> fst (DeleteSubscriptionDeployment ds n) = None)
   \<and> snd (DeployToSubscription ds l n t p tags) =
       (case sdkBeginCreateOrUpdateAtSubscriptionScope ds n (subscriptionDeployment l t p tags) of
          Inl failure \<Rightarrow>
            [BeginCreateOrUpdateAtSubscriptionScope n (subscriptionDeployment l t p tags)]
        | Inr poller \<Rightarrow>
            [BeginCreateOrUpdateAtSubscriptionScope n (subscriptionDeployment l t p tags),
             CallPollUntilDone])
   \<and> snd (DeployToResourceGroup ds g n t p tags) =
       (case sdkBeginCreateOrUpdate ds g n (resourceGroupDeployment t p tags) of
          Inl failure \<Rightarrow> [BeginCreateOrUpdate g n (resourceGroupDeployment t p tags)]
        | Inr poller \<Rightarrow> [BeginCreateOrUpdate g n (resourceGroupDeployment t p tags),
                         CallPollUntilDone])
   \<and> snd (WhatIfDeployToSubscription ds l n t p) =
       (case sdkBeginWhatIfAtSubscriptionScope ds n (subscriptionWhatIf l t p) of
          Inl failure \<Rightarrow> [BeginWhatIfAtSubscriptionScope n (subscriptionWhatIf l t p)]
        | Inr poller \<Rightarrow> [BeginWhatIfAtSubscriptionScope n (subscriptionWhatIf l t p),
                         CallPollUntilDone])
   \<and> snd (WhatIfDeployToResourceGroup ds g n t p) =
       (case sdkBeginWhatIf ds g n (resourceGroupWhatIf t p) of
          Inl failure \<Rightarrow> [BeginWhatIf g n (resourceGroupWhatIf t p)]
        | Inr poller \<Rightarrow> [BeginWhatIf g n (resourceGroupWhatIf t p), CallPollUntilDone])
   \<and> snd (DeleteSubscriptionDeployment ds n) =
       (case sdkBeginDeleteAtSubscriptionScope ds n of
          Inl failure \<Rightarrow> [BeginDeleteAtSubscriptionScope n]
        | Inr poller \<Rightarrow> [BeginDeleteAtSubscriptionScope n, CallPollUntilDone])
   \<and> (sdkGetAtSubscriptionScope ds n = Inl e
        \<longrightarrow> GetSubscriptionDeployment ds n
              = Inl (if isNotFound e then ErrDeploymentNotFound
                     else Errorf ''getting deployment from subscription: '' e))
   \<and> (sdkGet ds g n = Inl e
        \<longrightarrow> GetResourceGroupDeployment ds g n
              = Inl (if isNotFound e then ErrDeploymentNotFound
                     else Errorf ''getting deployment from resource group: '' e))
   \<and> (sdkBeginCreateOrUpdateAtSubscriptionScope ds n (subscriptionDeployment l t p tags) = Inl e
        \<longrightarrow> fst (DeployToSubscription ds l n t p tags)
              = Inl (Errorf ''starting deployment to subscription: '' e))
   \<and> (sdkBeginCreateOrUpdate ds g n (resourceGroupDeployment t p tags) = Inl e
        \<longrightarrow> fst (DeployToResourceGroup ds g n t p tags)
              = Inl (Errorf ''starting deployment to resource group: '' e))
   \<and> (sdkBeginWhatIfAtSubscriptionScope ds n (subscriptionWhatIf l t p) = Inl e
        \<longrightarrow> fst (WhatIfDeployToSubscription ds l n t p)
              = Inl (Errorf ''starting deployment to subscription: '' e))
   \<and> (sdkBeginWhatIf ds g n (resourceGroupWhatIf t p) = Inl e
        \<longrightarrow> fst (WhatIfDeployToResourceGroup ds g n t p)
              = Inl (Errorf ''starting deployment to resource group: '' e))
   \<and> (sdkBeginDeleteAtSubscriptionScope ds n = Inl e
        \<longrightarrow> fst (DeleteSubscriptionDeployment ds n)
              = Some (Errorf ''starting to delete deployment: '' e))
   \<and> (sdkBeginCreateOrUpdateAtSubscriptionScope ds n (subscriptionDeployment l t p tags)
          = Inr (Poller (Inl e))
        \<longrightarrow> fst (DeployToSubscription ds l n t p tags)
              = Inl (Errorf ''deploying to subscription:\<newline>\<newline>Deployment Error Details:\<newline>''
                       (pollError e)))
   \<and> (sdkBeginCreateOrUpdate ds g n (resourceGroupDeployment t p tags) = Inr (Poller (Inl e))
        \<longrightarrow> fst (DeployToResourceGroup ds g n t p tags)
              = Inl (Errorf ''deploying to resource group:\<newline>\<newline>Deployment Error Details:\<newline>''
                       (pollError e)))
   \<and> (sdkBeginWhatIfAtSubscriptionScope ds n (subscriptionWhatIf l t p) = Inr (Poller (Inl e))
        \<longrightarrow> fst (WhatIfDeployToSubscription ds l n t p)
              = Inl (Errorf ''deploying to subscription:\<newline>\<newline>Deployment Error Details:\<newline>''
                       (pollError e)))
   \<and> (sdkBeginWhatIf ds g n (resourceGroupWhatIf t p) = Inr (Poller (Inl e))
        \<longrightarrow> fst (WhatIfDeployToResourceGroup ds g n t p)
              = Inl (Errorf ''deploying to resource group:\<newline>\<newline>Deployment Error Details:\<newline>''
                       (pollError e)))
   \<and> (sdkBeginDeleteAtSubscriptionScope ds n = Inr (Poller (Inl e))
        \<longrightarrow> fst (DeleteSubscriptionDeployment ds n)
              = Some (Errorf ''deleting deployment operation: '' e))
   \<and> (errors_As e = None \<longrightarrow> \<not> isNotFound e \<and> pollError e = e)
   \<and> (errors_As e = Some r \<longrightarrow>
        isNotFound e = (StatusCode r = 404)
        \<and> pollError e = AzureDeploymentError (case RawResponseBody r of Some body \<Rightarrow> body
                                                                        | None \<Rightarrow> ErrorText r))"
  unfolding DeployToSubscription_run DeployToResourceGroup_run
    WhatIfDeployToSubscription_run WhatIfDeployToResourceGroup_run
    DeleteSubscriptionDeployment_run
  by (intro conjI impI;
      simp add: Get_failure listPages_error_in_pager CalculateTemplateHash_def
                ListSubscriptionDeployments_def ListResourceGroupDeployments_def
                GetSubscriptionDeployment_def GetResourceGroupDeployment_def
                listPages_ok [of "[]", simplified] listPages_fail [of "[]"]
                pollError_def isNotFound_def
           split: sum.splits option.splits)

text \<open>
  Witness for C1: classified and unclassified errors, a failing and a complete listing, a
  deployment that is found and one that is made, at the example client.
\<close>

theorem C1_error_handling_witness:
  "GetSubscriptionDeployment exampleClient ''zz'' = Inl ErrDeploymentNotFound
   \<and> GetResourceGroupDeployment exampleClient ''rg'' ''bad''
       = Inl (Errorf ''getting deployment from resource group: ''
                (Errorf ''request failed: '' err400))
   \<and> fst (WhatIfDeployToSubscription exampleClient ''westus'' ''bad'' ''{}'' [])
       = Inl (Errorf ''deploying to subscription:\<newline>\<newline>Deployment Error Details:\<newline>''
                (AzureDeploymentError ''InvalidTemplate''))
   \<and> fst (DeployToResourceGroup exampleClient ''rg'' ''bad'' ''{}'' [] [])
       = Inl (Errorf ''deploying to resource group:\<newline>\<newline>Deployment Error Details:\<newline>''
                errTimeout)
   \<and> CalculateTemplateHash exampleClient [] = Inl errTimeout
   \<and> ListResourceGroupDeployments exampleClient ''rg'' = (NilSlice, Some errTimeout)
   \<and> ListSubscriptionDeployments exampleClient
       = (Slice [deploymentA, deploymentB, deploymentA], None)
   \<and> GetSubscriptionDeployment exampleClient ''a'' = Inr deploymentA
   \<and> fst (DeployToResourceGroup exampleClient ''rg'' ''b'' ''{}'' [] []) = Inr deploymentB"
proof -
  have r: "errors_As err400
             = Some (ResponseError 400 ''PUT: 400 Bad Request'' (Some ''InvalidTemplate''))"
    and r4: "errors_As err404
             = Some (ResponseError 404 ''GET: 404 Not Found'' (Some ''DeploymentNotFound''))"
    and r': "errors_As errTimeout = None"
    by (simp_all add: err400_def err404_def errTimeout_def)
  note a = C1_error_handling
    [where ds = exampleClient and n = "''zz''" and g = "''rg''" and e = err404
       and r = "ResponseError 404 ''GET: 404 Not Found'' (Some ''DeploymentNotFound'')"]
  note b = C1_error_handling
    [where ds = exampleClient and n = "''bad''" and g = "''rg''"
       and e = "Errorf ''request failed: '' err400"
       and r = "ResponseError 400 ''PUT: 400 Bad Request'' (Some ''InvalidTemplate'')"]
  note c = C1_error_handling
    [where ds = exampleClient and n = "''bad''" and g = "''rg''" and l = "''westus''"
       and t = "''{}''" and p = "[]" and tags = "[]" and e = err400
       and r = "ResponseError 400 ''PUT: 400 Bad Request'' (Some ''InvalidTemplate'')"]
  note d = C1_error_handling
    [where ds = exampleClient and n = "''bad''" and g = "''rg''" and l = "''westus''"
       and t = "[]" and p = "[]" and tags = "[]" and e = errTimeout]
  note d' = C1_error_handling
    [where ds = exampleClient and n = "''bad''" and g = "''rg''" and l = "''westus''"
       and t = "''{}''" and p = "[]" and tags = "[]" and e = errTimeout]
  from a b c d d' r r4 r'
  have errors:
    "GetSubscriptionDeployment exampleClient ''zz'' = Inl ErrDeploymentNotFound
     \<and> GetResourceGroupDeployment exampleClient ''rg'' ''bad''
         = Inl (Errorf ''getting deployment from resource group: ''
                  (Errorf ''request failed: '' err400))
     \<and> fst (WhatIfDeployToSubscription exampleClient ''westus'' ''bad'' ''{}'' [])
         = Inl (Errorf ''deploying to subscription:\<newline>\<newline>Deployment Error Details:\<newline>''
                  (AzureDeploymentError ''InvalidTemplate''))
     \<and> fst (DeployToResourceGroup exampleClient ''rg'' ''bad'' ''{}'' [] [])
         = Inl (Errorf ''deploying to resource group:\<newline>\<newline>Deployment Error Details:\<newline>''
                  errTimeout)
     \<and> CalculateTemplateHash exampleClient [] = Inl errTimeout"
    by (simp add: exampleClient_def)
  have p1: "sdkNewListByResourceGroupPager exampleClient ''rg''
              = map Inr [DeploymentListResult (Slice [deploymentA])]
                @ Inl errTimeout # [Inr (DeploymentListResult (Slice [deploymentB]))]"
    and p2: "sdkNewListAtSubscriptionScopePager exampleClient
              = map Inr [DeploymentListResult (Slice [deploymentA]),
                         DeploymentListResult NilSlice,
                         DeploymentListResult (Slice [deploymentB, deploymentA])]"
    and g1: "sdkGetAtSubscriptionScope exampleClient ''a'' = Inr deploymentA"
    and b1: "sdkBeginCreateOrUpdate exampleClient ''rg'' ''b'' (resourceGroupDeployment ''{}'' [] [])
              = Inr (Poller (Inr deploymentB))"
    by (simp_all add: exampleClient_def)
  note failing = C1_error_handling
    [where ds = exampleClient and g = "''rg''" and e = errTimeout
       and pages = "[DeploymentListResult (Slice [deploymentA])]"
       and rest = "[Inr (DeploymentListResult (Slice [deploymentB]))]"]
  note listing = C1_error_handling
    [where ds = exampleClient and g = "''rg''" and n = "''a''" and d = deploymentA
       and pages = "[DeploymentListResult (Slice [deploymentA]),
                     DeploymentListResult NilSlice,
                     DeploymentListResult (Slice [deploymentB, deploymentA])]"]
  note deploying = C1_error_handling
    [where ds = exampleClient and g = "''rg''" and n = "''b''" and d = deploymentB
       and t = "''{}''" and p = "[]" and tags = "[]"]
  from failing
  have "sdkNewListByResourceGroupPager exampleClient ''rg''
          = map Inr [DeploymentListResult (Slice [deploymentA])]
            @ Inl errTimeout # [Inr (DeploymentListResult (Slice [deploymentB]))]
        \<longrightarrow> ListResourceGroupDeployments exampleClient ''rg'' = (NilSlice, Some errTimeout)"
    by blast
  with p1 have failed: "ListResourceGroupDeployments exampleClient ''rg''
                          = (NilSlice, Some errTimeout)"
    by blast
  from listing
  have "sdkNewListAtSubscriptionScopePager exampleClient
          = map Inr [DeploymentListResult (Slice [deploymentA]),
                     DeploymentListResult NilSlice,
                     DeploymentListResult (Slice [deploymentB, deploymentA])]
        \<longrightarrow> ListSubscriptionDeployments exampleClient
              = (Slice (concat (map (\<lambda>page. elems (Value page))
                   [DeploymentListResult (Slice [deploymentA]),
                    DeploymentListResult NilSlice,
                    DeploymentListResult (Slice [deploymentB, deploymentA])])), None)"
    by blast
  with p2 have listed: "ListSubscriptionDeployments exampleClient
                          = (Slice [deploymentA, deploymentB, deploymentA], None)"
    by simp
  from listing
  have "sdkGetAtSubscriptionScope exampleClient ''a'' = Inr deploymentA
        \<longrightarrow> GetSubscriptionDeployment exampleClient ''a'' = Inr deploymentA"
    by blast
  with g1 have got: "GetSubscriptionDeployment exampleClient ''a'' = Inr deploymentA"
    by blast
  from deploying
  have "sdkBeginCreateOrUpdate exampleClient ''rg'' ''b'' (resourceGroupDeployment ''{}'' [] [])
          = Inr (Poller (Inr deploymentB))
        \<longrightarrow> fst (DeployToResourceGroup exampleClient ''rg'' ''b'' ''{}'' [] []) = Inr deploymentB"
    by blast
  with b1 have deployed: "fst (DeployToResourceGroup exampleClient ''rg'' ''b'' ''{}'' [] [])
                            = Inr deploymentB"
    by blast
  from errors failed listed got deployed show ?thesis by (intro conjI) simp_all
qed

subsection \<open>Commands of the kubectl wrapper\<close>

lemma executeCommandWithArgs_run:
  "executeCommandWithArgs cli a flags =
     (respond (commandRunner cli) (history (commandRunner cli))
        \<lparr>Cmd = Cmd a, Args = Args a @ flagArgs flags,
         RunCwd = (if cwd cli \<noteq> [] then cwd cli else RunCwd a),
         Env = Env a, StdIn = StdIn a, EnrichError = True\<rparr>,
      cli\<lparr>commandRunner := (commandRunner cli)
             \<lparr>history := history (commandRunner cli)
                     @ [\<lparr>Cmd = Cmd a, Args = Args a @ flagArgs flags,
                         RunCwd = (if cwd cli \<noteq> [] then cwd cli else RunCwd a),
                         Env = Env a, StdIn = StdIn a, EnrichError = True\<rparr>]\<rparr>\<rparr>)"
  by (cases a; cases flags)
     (simp_all add: executeCommandWithArgs_def Run_def flagArgs_def WithEnrichError_def
                    WithCwd_def AppendParams_def Let_def)

lemma snd_wrapErr: "snd (wrapErr msg r) = snd r"
  by (simp add: wrapErr_def split: option.splits)

lemma Exec_run:
  "Exec cli flags args =
     (respond (commandRunner cli) (history (commandRunner cli))
        \<lparr>Cmd = ''kubectl'', Args = args @ flagArgs flags, RunCwd = cwd cli, Env = None,
         StdIn = None, EnrichError = True\<rparr>,
      cli\<lparr>commandRunner := (commandRunner cli)
             \<lparr>history := history (commandRunner cli)
                     @ [\<lparr>Cmd = ''kubectl'', Args = args @ flagArgs flags, RunCwd = cwd cli,
                         Env = None, StdIn = None, EnrichError = True\<rparr>]\<rparr>\<rparr>)"
  by (simp add: Exec_def executeCommandWithArgs_run NewRunArgs_def AppendParams_def)

lemma ApplyWithInput_run:
  "ApplyWithInput cli input flags =
     wrapErr ''kubectl apply -f: ''
       (respond (commandRunner cli) (history (commandRunner cli)) (applyCommand cli flags input),
        cli\<lparr>commandRunner := (commandRunner cli)
               \<lparr>history := history (commandRunner cli) @ [applyCommand cli flags input]\<rparr>\<rparr>)"
  by (simp add: ApplyWithInput_def executeCommandWithArgs_run NewRunArgs_def WithEnv_def
                WithStdIn_def applyCommand_def Let_def)

lemma ConfigView_run:
  "getKubeConfigDir os = Inr kubeConfigDir \<Longrightarrow>
   ConfigView os cli merge flatten flags =
     wrapErr ''kubectl config view: ''
       (respond (commandRunner cli) (history (commandRunner cli))
          \<lparr>Cmd = ''kubectl'',
           Args = [''config'', ''view''] @ (if merge then [''--merge''] else [])
                  @ (if flatten then [''--flatten''] else []) @ flagArgs flags,
           RunCwd = (if cwd cli \<noteq> [] then cwd cli else kubeConfigDir),
           Env = Some (environ (env cli)), StdIn = None, EnrichError = True\<rparr>,
        cli\<lparr>commandRunner := (commandRunner cli)
               \<lparr>history := history (commandRunner cli)
                       @ [\<lparr>Cmd = ''kubectl'',
                           Args = [''config'', ''view''] @ (if merge then [''--merge''] else [])
                                  @ (if flatten then [''--flatten''] else []) @ flagArgs flags,
                           RunCwd = (if cwd cli \<noteq> [] then cwd cli else kubeConfigDir),
                           Env = Some (environ (env cli)), StdIn = None,
                           EnrichError = True\<rparr>]\<rparr>\<rparr>)"
  by (simp add: ConfigView_def executeCommandWithArgs_run NewRunArgs_def WithEnv_def
                WithCwd_def Let_def)

lemma newCommands_append [simp]:
  "history (commandRunner cli') = history (commandRunner cli) @ cs \<Longrightarrow> newCommands cli cli' = cs"
  by (simp add: newCommands_def)


subsection \<open>Applying manifests\<close>

lemma wraps_refl [simp]: "wraps e e"
  by (cases e) simp_all

lemma wraps_Errorf [simp]: "wraps r e \<Longrightarrow> wraps (Errorf msg r) e"
  by simp

lemma reports_Errorf:
  "reports r e \<Longrightarrow> reports (map_option (Errorf msg) r) e"
  by (cases r; cases e) simp_all

lemma resolveVar_lookup:
  "(\<lambda>name. case map_of (env cli) name of Some val \<Rightarrow> val | None \<Rightarrow> Getenv os name)
     = resolveVar os cli"
proof
  fix name
  show "(case map_of (env cli) name of Some val \<Rightarrow> val | None \<Rightarrow> Getenv os name)
          = resolveVar os cli name"
  proof (cases "map_of (env cli) name")
    case None
    then have "name \<notin> fst ` set (env cli)" by (simp add: map_of_eq_None_iff)
    with None show ?thesis by (simp add: resolveVar_def)
  next
    case (Some val)
    then have "(name, val) \<in> set (env cli)" by (rule map_of_SomeD)
    then have "name \<in> fst ` set (env cli)" by force
    with Some show ?thesis by (simp add: resolveVar_def)
  qed
qed

lemma applySteps_append:
  "applySteps os cli flags (xs @ ys) =
     (case applySteps os cli flags xs of
        (Some e, cli') \<Rightarrow> (Some e, cli')
      | (None, cli') \<Rightarrow> applySteps os cli' flags ys)"
  by (induction os cli flags xs rule: applySteps.induct)
     (simp_all split: sum.splits option.splits)

lemma applyTemplate_step:
  "reports (fst (applyTemplate os cli filePath content flags))
           (fst (applySteps os cli flags [Manifest content]))
   \<and> snd (applyTemplate os cli filePath content flags)
       = snd (applySteps os cli flags [Manifest content])"
  by (cases content)
     (simp_all add: applyTemplate_def resolveVar_lookup ApplyWithInput_run wrapErr_def
                    Run_def
               split: sum.splits option.splits)


lemma applyTemplates_steps:
  "reports (fst (applyTemplates os cli directoryPath dir flags))
           (fst (applySteps os cli flags (manifests dir)))
   \<and> snd (applyTemplates os cli directoryPath dir flags)
       = snd (applySteps os cli flags (manifests dir))"
  "reports (fst (applyEntries os cli directoryPath entries flags))
           (fst (applySteps os cli flags (entriesManifests entries)))
   \<and> snd (applyEntries os cli directoryPath entries flags)
       = snd (applySteps os cli flags (entriesManifests entries))"
proof (induction os cli directoryPath dir flags and os cli directoryPath entries flags
       rule: applyTemplates_applyEntries.induct)
  case (1 os cli directoryPath err flags)
  show ?case by simp
next
  case (2 os cli directoryPath entries flags)
  then show ?case by simp
next
  case (3 os cli directoryPath flags)
  show ?case by simp
next
  case (4 os cli directoryPath name dir entries flags)
  let ?entryPath = "filepath_Join directoryPath name"
  obtain r cli' where sub: "applyTemplates os cli ?entryPath dir flags = (r, cli')"
    by (cases "applyTemplates os cli ?entryPath dir flags")
  obtain r0 cli0 where spec: "applySteps os cli flags (manifests dir) = (r0, cli0)"
    by (cases "applySteps os cli flags (manifests dir)")
  from "4.IH"(1) [OF refl] sub spec have rel: "reports r r0" and same: "cli' = cli0"
    by simp_all
  show ?case
  proof (cases r)
    case None
    with rel have r0: "r0 = None" by (cases r0) simp_all
    from sub None have eq: "(None, cli') = applyTemplates os cli ?entryPath dir flags"
      by simp
    from "4.IH"(2) [OF refl eq refl]
    have "reports (fst (applyEntries os cli' directoryPath entries flags))
                  (fst (applySteps os cli' flags (entriesManifests entries)))
          \<and> snd (applyEntries os cli' directoryPath entries flags)
              = snd (applySteps os cli' flags (entriesManifests entries))"
      by simp
    with sub spec None r0 same show ?thesis
      by (simp add: applySteps_append)
  next
    case (Some err)
    with rel obtain e where r0: "r0 = Some e" and w: "wraps err e"
      by (cases r0) simp_all
    with sub spec Some same show ?thesis
      by (simp add: applySteps_append)
  qed
next
  case (5 os cli directoryPath name content entries flags)
  let ?entryPath = "filepath_Join directoryPath name"
  show ?case
  proof (cases "filepath_Ext name = ''.yaml'' \<or> filepath_Ext name = ''.yml''")
    case False
    from "5.IH"(1) [OF refl refl False] False show ?thesis by (simp add: Let_def)
  next
    case True
    obtain r cli' where one: "applyTemplate os cli ?entryPath content flags = (r, cli')"
      by (cases "applyTemplate os cli ?entryPath content flags")
    obtain r0 cli0 where spec: "applySteps os cli flags [Manifest content] = (r0, cli0)"
      by (cases "applySteps os cli flags [Manifest content]")
    from applyTemplate_step [of os cli ?entryPath content flags] one spec
    have rel: "reports r r0" and same: "cli' = cli0" by simp_all
    have app: "applySteps os cli flags (Manifest content # entriesManifests entries)
                 = (case applySteps os cli flags [Manifest content] of
                      (Some e, c) \<Rightarrow> (Some e, c)
                    | (None, c) \<Rightarrow> applySteps os c flags (entriesManifests entries))"
      using applySteps_append [of os cli flags "[Manifest content]" "entriesManifests entries"]
      by simp
    show ?thesis
    proof (cases r)
      case None
      with rel have r0: "r0 = None" by (cases r0) simp_all
      from one None have eq: "(None, cli') = applyTemplate os cli ?entryPath content flags"
        by simp
      from True have nn: "\<not> \<not> (filepath_Ext name = ''.yaml'' \<or> filepath_Ext name = ''.yml'')"
        by simp
      from "5.IH"(2) [OF refl refl nn eq refl]
      have "reports (fst (applyEntries os cli' directoryPath entries flags))
                    (fst (applySteps os cli' flags (entriesManifests entries)))
            \<and> snd (applyEntries os cli' directoryPath entries flags)
                = snd (applySteps os cli' flags (entriesManifests entries))"
        by simp
      with True one spec None r0 same app show ?thesis by (auto simp: Let_def)
    next
      case (Some err)
      with rel obtain e where r0: "r0 = Some e" and w: "wraps err e"
        by (cases r0) simp_all
      with True one spec Some same app show ?thesis by (auto simp: Let_def)
    qed
  qed
qed


lemma Apply_steps:
  "reports (fst (Apply os cli path dir flags)) (fst (applySteps os cli flags (manifests dir)))
   \<and> snd (Apply os cli path dir flags) = snd (applySteps os cli flags (manifests dir))"
proof -
  obtain r cli' where a: "applyTemplates os cli path dir flags = (r, cli')"
    by (cases "applyTemplates os cli path dir flags")
  obtain r0 cli0 where b: "applySteps os cli flags (manifests dir) = (r0, cli0)"
    by (cases "applySteps os cli flags (manifests dir)")
  from applyTemplates_steps(1) [of os cli path dir flags] a b
  have "reports r r0" and "cli' = cli0" by simp_all
  with a b show ?thesis
    by (cases r; cases r0) (simp_all add: Apply_def)
qed

lemma applySteps_commands:
  "\<exists>cs. history (commandRunner (snd (applySteps os cli flags steps)))
           = history (commandRunner cli) @ cs
        \<and> (\<forall>c \<in> set cs. \<exists>input. c = applyCommand cli flags input)"
proof (induction os cli flags steps rule: applySteps.induct)
  case (4 os cli flags yaml steps)
  show ?case
  proof (cases "envsubst_Eval os yaml (resolveVar os cli)")
    case (Inl err)
    then show ?thesis by simp
  next
    case (Inr replaced)
    let ?c = "applyCommand cli flags replaced"
    let ?runner = "(commandRunner cli)\<lparr>history := history (commandRunner cli) @ [?c]\<rparr>"
    let ?cli = "cli\<lparr>commandRunner := ?runner\<rparr>"
    have same: "applyCommand ?cli flags input = applyCommand cli flags input" for input
      by (simp add: applyCommand_def)
    obtain res failure
      where out: "respond (commandRunner cli) (history (commandRunner cli)) ?c = (res, failure)"
      by (cases "respond (commandRunner cli) (history (commandRunner cli)) ?c")
    show ?thesis
    proof (cases failure)
      case (Some err)
      with Inr out
      have "history (commandRunner (snd (applySteps os cli flags (Manifest (Inr yaml) # steps))))
                      = history (commandRunner cli) @ [?c]"
        by (simp add: Run_def)
      then show ?thesis by auto
    next
      case None
      have run: "Run (commandRunner cli) ?c = ((res, None), ?runner)"
        using out None by (simp add: Run_def)
      then have ok: "snd (fst (Run (commandRunner cli) ?c)) = None"
        and next_cli: "cli\<lparr>commandRunner := snd (Run (commandRunner cli) ?c)\<rparr> = ?cli"
        by simp_all
      from "4.IH" [OF Inr ok, unfolded next_cli]
      obtain cs where cs: "history (commandRunner (snd (applySteps os ?cli flags steps)))
                             = history (commandRunner ?cli) @ cs"
        and all: "\<forall>c \<in> set cs. \<exists>input. c = applyCommand ?cli flags input"
        by blast
      from Inr run cs
      have "history (commandRunner (snd (applySteps os cli flags (Manifest (Inr yaml) # steps))))
              = history (commandRunner cli) @ (?c # cs)"
        by simp
      moreover from all same have "\<forall>c \<in> set (?c # cs). \<exists>input. c = applyCommand cli flags input"
        by auto
      ultimately show ?thesis by blast
    qed
  qed
qed simp_all

lemma applyCommand_kubectl:
  "kubectlCommand cli flags [''apply'', ''-f'', ''-''] (applyCommand cli flags input)"
  by (simp add: kubectlCommand_def applyCommand_def)


lemma Exec_history:
  "history (commandRunner (snd (Exec cli flags args)))
     = history (commandRunner cli)
       @ [\<lparr>Cmd = ''kubectl'', Args = args @ flagArgs flags, RunCwd = cwd cli, Env = None,
           StdIn = None, EnrichError = True\<rparr>]"
  by (simp add: Exec_run)

lemma ApplyWithInput_history:
  "history (commandRunner (snd (ApplyWithInput cli input flags)))
     = history (commandRunner cli) @ [applyCommand cli flags input]"
  by (simp add: ApplyWithInput_run snd_wrapErr)

lemma ConfigView_history:
  "getKubeConfigDir os = Inr kubeConfigDir \<Longrightarrow>
   history (commandRunner (snd (ConfigView os cli merge flatten flags)))
     = history (commandRunner cli)
       @ [\<lparr>Cmd = ''kubectl'',
           Args = [''config'', ''view''] @ (if merge then [''--merge''] else [])
                  @ (if flatten then [''--flatten''] else []) @ flagArgs flags,
           RunCwd = (if cwd cli \<noteq> [] then cwd cli else kubeConfigDir),
           Env = Some (environ (env cli)), StdIn = None, EnrichError = True\<rparr>]"
  by (simp add: ConfigView_run snd_wrapErr)

lemma ConfigView_no_dir:
  "getKubeConfigDir os = Inl err \<Longrightarrow> ConfigView os cli merge flatten flags = (Inl err, cli)"
  by (simp add: ConfigView_def)

lemma Apply_commands:
  "\<exists>cs. history (commandRunner (snd (Apply os cli path dir flags)))
           = history (commandRunner cli) @ cs
        \<and> (\<forall>c \<in> set cs. \<exists>input. c = applyCommand cli flags input)"
  using applySteps_commands [of os cli flags "manifests dir"]
  by (simp add: Apply_steps)

text \<open>
  C5 as stated fails: not every public operation of the client shells out. \<open>Name\<close>,
  \<open>InstallUrl\<close>, \<open>CheckInstalled\<close>, \<open>SetEnv\<close> and \<open>Cwd\<close> hand no command to the
  runner, nor does \<open>ConfigView\<close> when the configuration directory is not found.
\<close>

theorem C5_counterexample:
  "history (commandRunner exampleCli) = []
   \<and> history (commandRunner (snd (Name exampleCli))) = []
   \<and> history (commandRunner (snd (InstallUrl exampleCli))) = []
   \<and> history (commandRunner (snd (CheckInstalled exampleOS exampleCli))) = []
   \<and> history (commandRunner (SetEnv exampleCli [(''A'', ''1'')])) = []
   \<and> history (commandRunner (Cwd exampleCli ''/tmp'')) = []
   \<and> history (commandRunner (snd (ConfigView noKubeConfigOS exampleCli True False exampleFlags)))
       = []"
  by (simp add: Name_def InstallUrl_def CheckInstalled_def SetEnv_def Cwd_def ConfigView_def
                noKubeConfigOS_def exampleCli_def exampleRunner_def)

text \<open>
  C5, as amended. The public operations that run a command assemble its arguments and
  hand it to the runner: \<open>Exec\<close>, \<open>ConfigUseContext\<close>, \<open>ApplyWithInput\<close>,
  \<open>CreateSecretGenericFromLiterals\<close>, \<open>CreateNamespace\<close> and \<open>RolloutStatus\<close> exactly
  one command each, \<open>ConfigView\<close> one unless the configuration directory is not found,
  and \<open>Apply\<close> the commands of \<open>applySteps\<close>, one for each manifest it reaches. Every
  such command has the program name \<^verbatim>\<open>kubectl\<close> and the enriched-error mode set, has the
  client's working directory when that is not empty, which is the directory last given to
  \<open>Cwd\<close>, and has as arguments the operation's own followed by those of the flags in
  the order dry-run, namespace, output (\<open>flagArgs\<close>; none for nil flags). \<open>Name\<close>,
  \<open>InstallUrl\<close> and \<open>CheckInstalled\<close> leave the client as it is and run no command;
  \<open>SetEnv\<close> and \<open>Cwd\<close> only set their field.
\<close>

theorem C5_kubectl_commands:
  "(\<exists>c. history (commandRunner (snd (Exec cli flags args))) = history (commandRunner cli) @ [c]
        \<and> kubectlCommand cli flags args c)
   \<and> (\<exists>c. history (commandRunner (snd (ConfigUseContext cli name flags)))
             = history (commandRunner cli) @ [c]
        \<and> kubectlCommand cli flags [''config'', ''use-context'', name] c)
   \<and> (getKubeConfigDir os = Inr kubeConfigDir \<longrightarrow>
        (\<exists>c. history (commandRunner (snd (ConfigView os cli merge flatten flags)))
                = history (commandRunner cli) @ [c]
           \<and> kubectlCommand cli flags
                ([''config'', ''view''] @ (if merge then [''--merge''] else [])
                 @ (if flatten then [''--flatten''] else [])) c))
   \<and> (getKubeConfigDir os = Inl err \<longrightarrow>
        history (commandRunner (snd (ConfigView os cli merge flatten flags)))
          = history (commandRunner cli))
   \<and> (\<exists>c. history (commandRunner (snd (ApplyWithInput cli input flags)))
             = history (commandRunner cli) @ [c]
        \<and> kubectlCommand cli flags [''apply'', ''-f'', ''-''] c \<and> StdIn c = Some input)
   \<and> (\<exists>cs. history (commandRunner (snd (Apply os cli path dir flags)))
              = history (commandRunner cli) @ cs
        \<and> (\<forall>c \<in> set cs. kubectlCommand cli flags [''apply'', ''-f'', ''-''] c))
   \<and> (\<exists>c. history (commandRunner (snd (CreateSecretGenericFromLiterals cli name secrets flags)))
             = history (commandRunner cli) @ [c]
        \<and> kubectlCommand cli flags
             ([''create'', ''secret'', ''generic'', name]
              @ map (\<lambda>secret. ''--from-literal='' @ secret) secrets) c)
   \<and> (\<exists>c. history (commandRunner (snd (CreateNamespace cli name flags)))
             = history (commandRunner cli) @ [c]
        \<and> kubectlCommand cli flags [''create'', ''namespace'', name] c)
   \<and> (\<exists>c. history (commandRunner (snd (RolloutStatus cli name flags)))
             = history (commandRunner cli) @ [c]
        \<and> kubectlCommand cli flags [''rollout'', ''status'', ''deployment/'' @ name] c)
   \<and> snd (CheckInstalled os cli) = cli \<and> snd (InstallUrl cli) = cli \<and> snd (Name cli) = cli
   \<and> commandRunner (SetEnv cli envValues) = commandRunner cli
   \<and> commandRunner (Cwd cli dir') = commandRunner cli
   \<and> snd (Apply os cli path dir flags) = snd (applySteps os cli flags (manifests dir))
   \<and> SetEnv cli envValues = cli\<lparr>env := envValues\<rparr>
   \<and> Cwd cli dir' = cli\<lparr>cwd := dir'\<rparr>
   \<and> (dir' \<noteq> [] \<longrightarrow>
        (\<exists>c. history (commandRunner (snd (Exec (Cwd cli dir') flags args)))
                = history (commandRunner cli) @ [c]
           \<and> RunCwd c = dir' \<and> kubectlCommand (Cwd cli dir') flags args c))"
proof -
  have pinned: "snd (Apply os cli path dir flags) = snd (applySteps os cli flags (manifests dir))"
    by (simp add: Apply_steps)
  have tie: "dir' \<noteq> [] \<longrightarrow>
        (\<exists>c. history (commandRunner (snd (Exec (Cwd cli dir') flags args)))
                = history (commandRunner cli) @ [c]
           \<and> RunCwd c = dir' \<and> kubectlCommand (Cwd cli dir') flags args c)"
    by (simp add: Exec_history kubectlCommand_def Cwd_def)
  have app: "\<exists>cs. history (commandRunner (snd (Apply os cli path dir flags)))
                      = history (commandRunner cli) @ cs
                 \<and> (\<forall>c \<in> set cs. kubectlCommand cli flags [''apply'', ''-f'', ''-''] c)"
  proof -
    from Apply_commands [of os cli path dir flags]
    obtain cs where h: "history (commandRunner (snd (Apply os cli path dir flags)))
                          = history (commandRunner cli) @ cs"
      and all: "\<forall>c \<in> set cs. \<exists>input. c = applyCommand cli flags input"
      by blast
    have "kubectlCommand cli flags [''apply'', ''-f'', ''-''] c" if "c \<in> set cs" for c
    proof -
      from all that obtain input where "c = applyCommand cli flags input" by blast
      then show ?thesis by (simp add: applyCommand_kubectl)
    qed
    with h show ?thesis by blast
  qed
  have view: "getKubeConfigDir os = Inr kubeConfigDir \<longrightarrow>
        (\<exists>c. history (commandRunner (snd (ConfigView os cli merge flatten flags)))
                = history (commandRunner cli) @ [c]
           \<and> kubectlCommand cli flags
                ([''config'', ''view''] @ (if merge then [''--merge''] else [])
                 @ (if flatten then [''--flatten''] else [])) c)"
    by (simp add: ConfigView_history kubectlCommand_def)
  have noview: "getKubeConfigDir os = Inl err \<longrightarrow>
        history (commandRunner (snd (ConfigView os cli merge flatten flags)))
          = history (commandRunner cli)"
    by (simp add: ConfigView_no_dir)
  have inp: "\<exists>c. history (commandRunner (snd (ApplyWithInput cli input flags)))
             = history (commandRunner cli) @ [c]
        \<and> kubectlCommand cli flags [''apply'', ''-f'', ''-''] c \<and> StdIn c = Some input"
    by (simp add: ApplyWithInput_history applyCommand_kubectl) (simp add: applyCommand_def)
  have exec: "\<exists>c. history (commandRunner (snd (Exec cli flags xs)))
                    = history (commandRunner cli) @ [c]
               \<and> kubectlCommand cli flags xs c" for xs
    by (simp add: Exec_history kubectlCommand_def)
  from pinned tie app view noview inp exec [of args]
    exec [of "[''config'', ''use-context'', name]"]
    exec [of "[''create'', ''secret'', ''generic'', name]
              @ map (\<lambda>secret. ''--from-literal='' @ secret) secrets"]
    exec [of "[''create'', ''namespace'', name]"]
    exec [of "[''rollout'', ''status'', ''deployment/'' @ name]"]
  show ?thesis
    by (simp add: ConfigUseContext_def CreateSecretGenericFromLiterals_def CreateNamespace_def
                  RolloutStatus_def snd_wrapErr CheckInstalled_def InstallUrl_def Name_def
                  SetEnv_def Cwd_def)
qed

text \<open>
  C10. The command of \<open>Exec\<close>, and so of \<open>ConfigUseContext\<close>, \<open>CreateNamespace\<close>,
  \<open>CreateSecretGenericFromLiterals\<close> and \<open>RolloutStatus\<close>, which leave the client as
  \<open>Exec\<close> does, has no environment set, whatever the client's map; the commands of
  \<open>ConfigView\<close> and \<open>ApplyWithInput\<close> carry the client's map as \<^verbatim>\<open>key=value\<close>
  strings. \<open>SetEnv\<close> changes only the map and \<open>Cwd\<close> only the working directory, and
  neither hands a command to the runner.
\<close>

theorem C10_env_passing:
  "history (commandRunner (snd (Exec cli flags args)))
     = history (commandRunner cli)
       @ [\<lparr>Cmd = ''kubectl'', Args = args @ flagArgs flags, RunCwd = cwd cli, Env = None,
           StdIn = None, EnrichError = True\<rparr>]
   \<and> snd (ConfigUseContext cli name flags) = snd (Exec cli flags [''config'', ''use-context'', name])
   \<and> snd (CreateNamespace cli name flags) = snd (Exec cli flags [''create'', ''namespace'', name])
   \<and> snd (CreateSecretGenericFromLiterals cli name secrets flags)
       = snd (Exec cli flags ([''create'', ''secret'', ''generic'', name]
                              @ map (\<lambda>secret. ''--from-literal='' @ secret) secrets))
   \<and> snd (RolloutStatus cli name flags)
       = snd (Exec cli flags [''rollout'', ''status'', ''deployment/'' @ name])
   \<and> (getKubeConfigDir os = Inr kubeConfigDir \<longrightarrow>
        (\<exists>c. history (commandRunner (snd (ConfigView os cli merge flatten flags)))
                = history (commandRunner cli) @ [c]
           \<and> Env c = Some (environ (env cli))))
   \<and> (\<exists>c. history (commandRunner (snd (ApplyWithInput cli input flags)))
             = history (commandRunner cli) @ [c]
        \<and> Env c = Some (environ (env cli)))
   \<and> environ (env cli) = map (\<lambda>kv. fst kv @ ''='' @ snd kv) (env cli)
   \<and> SetEnv cli envValues = cli\<lparr>env := envValues\<rparr>
   \<and> commandRunner (SetEnv cli envValues) = commandRunner cli
   \<and> cwd (SetEnv cli envValues) = cwd cli
   \<and> Cwd cli dir' = cli\<lparr>cwd := dir'\<rparr>
   \<and> commandRunner (Cwd cli dir') = commandRunner cli
   \<and> env (Cwd cli dir') = env cli"
proof -
  have environ: "environ xs = map (\<lambda>kv. fst kv @ ''='' @ snd kv) xs" for xs
    by (induction xs) simp_all
  have view: "getKubeConfigDir os = Inr kubeConfigDir \<longrightarrow>
        (\<exists>c. history (commandRunner (snd (ConfigView os cli merge flatten flags)))
                = history (commandRunner cli) @ [c]
           \<and> Env c = Some (environ (env cli)))"
    by (simp add: ConfigView_history)
  have inp: "\<exists>c. history (commandRunner (snd (ApplyWithInput cli input flags)))
             = history (commandRunner cli) @ [c]
        \<and> Env c = Some (environ (env cli))"
    by (simp add: ApplyWithInput_history applyCommand_def)
  from view inp environ [of "env cli"] show ?thesis
    by (simp add: Exec_history ConfigUseContext_def CreateSecretGenericFromLiterals_def
                  CreateNamespace_def RolloutStatus_def snd_wrapErr SetEnv_def Cwd_def)
qed

text \<open>
  C6. \<open>Apply\<close> on a directory does what \<open>applySteps\<close> does on \<open>manifests\<close> of it:
  it goes through the directory and its subdirectories in order, and for exactly the
  non-directory entries with extension \<^verbatim>\<open>.yaml\<close> or \<^verbatim>\<open>.yml\<close> reads the file,
  substitutes the variables (from the client's map when the name is there, from the process
  environment otherwise) and hands \<^verbatim>\<open>kubectl apply -f -\<close> with the result on standard
  input to the runner. It stops at the first step that fails and returns an error that
  wraps that step's error; it returns no error when no step fails. The client it leaves,
  and with it the commands handed over, is the same.
\<close>

theorem C6_apply_traversal:
  "reports (fst (Apply os cli path dir flags)) (fst (applySteps os cli flags (manifests dir)))
   \<and> snd (Apply os cli path dir flags) = snd (applySteps os cli flags (manifests dir))"
  by (rule Apply_steps)


lemma example_steps:
  "applySteps exampleOS exampleCli exampleFlags (manifests exampleDir)
     = (Some (ErrorString ''permission denied''),
        exampleCli\<lparr>commandRunner := exampleRunner
          \<lparr>history := [applyCommand exampleCli exampleFlags ''nginx'',
                       applyCommand exampleCli exampleFlags ''/home/u'']\<rparr>\<rparr>)"
  by (simp add: exampleDir_def filepath_Ext_def exampleOS_def resolveVar_def exampleCli_def
                Run_def exampleRunner_def applyCommand_def)

text \<open>
  Witness for C5: commands of the example client, with flags and without, after \<open>Cwd\<close>,
  and of \<open>Apply\<close> on the example directory.
\<close>

theorem C5_kubectl_commands_witness:
  "Args (last (history (commandRunner
           (snd (ConfigView exampleOS exampleCli True False exampleFlags)))))
     = [''config'', ''view'', ''--merge'', ''--dry-run=client'', ''-n'', ''prod'']
   \<and> RunCwd (last (history (commandRunner
                (snd (Exec exampleCli exampleFlags [''get'', ''pods''])))))
     = ''/work''
   \<and> Cmd (last (history (commandRunner
             (snd (RolloutStatus exampleCli ''web'' None)))))
     = ''kubectl''
   \<and> Args (last (history (commandRunner
             (snd (RolloutStatus exampleCli ''web'' None)))))
     = [''rollout'', ''status'', ''deployment/web'']
   \<and> RunCwd (last (history (commandRunner
                (snd (Exec (Cwd exampleCli ''/tmp'') exampleFlags [''get'', ''pods''])))))
     = ''/tmp''
   \<and> map Args (history (commandRunner
                    (snd (Apply exampleOS exampleCli ''k8s'' exampleDir exampleFlags))))
     = [[''apply'', ''-f'', ''-'', ''--dry-run=client'', ''-n'', ''prod''],
        [''apply'', ''-f'', ''-'', ''--dry-run=client'', ''-n'', ''prod'']]"
proof -
  have d: "getKubeConfigDir exampleOS = Inr ''/home/u/.kube''"
    by (simp add: exampleOS_def)
  have c: "cwd exampleCli = ''/work''" "history (commandRunner exampleCli) = []"
    by (simp_all add: exampleCli_def exampleRunner_def)
  have f: "flagArgs exampleFlags = [''--dry-run=client'', ''-n'', ''prod'']"
    "flagArgs None = []"
    by (simp_all add: flagArgs_def exampleFlags_def)
  note flagged = C5_kubectl_commands
         [where cli = exampleCli and flags = exampleFlags and os = exampleOS
            and kubeConfigDir = "''/home/u/.kube''" and merge = True and flatten = False
            and args = "[''get'', ''pods'']" and name = "''web''" and err = errTimeout
            and input = "[]" and path = "''k8s''" and dir = exampleDir and secrets = "[]"
            and envValues = "[]" and dir' = "''/tmp''"]
  note plain = C5_kubectl_commands
         [where cli = exampleCli and flags = None and name = "''web''" and os = exampleOS
            and kubeConfigDir = "''/home/u/.kube''" and merge = True and flatten = False
            and args = "[]" and err = errTimeout
            and input = "[]" and path = "[]" and dir = exampleDir and secrets = "[]"
            and envValues = "[]" and dir' = "[]"]
  have tmp: "''/tmp'' \<noteq> ([] :: string)" by simp
  from flagged
  have "''/tmp'' \<noteq> [] \<longrightarrow>
        (\<exists>c. history (commandRunner
                   (snd (Exec (Cwd exampleCli ''/tmp'') exampleFlags [''get'', ''pods''])))
                = history (commandRunner exampleCli) @ [c]
           \<and> RunCwd c = ''/tmp''
           \<and> kubectlCommand (Cwd exampleCli ''/tmp'') exampleFlags [''get'', ''pods''] c)"
    by blast
  with tmp c
  have moved: "RunCwd (last (history (commandRunner
                  (snd (Exec (Cwd exampleCli ''/tmp'') exampleFlags [''get'', ''pods''])))))
                 = ''/tmp''"
    by auto
  from flagged
  have "snd (Apply exampleOS exampleCli ''k8s'' exampleDir exampleFlags)
          = snd (applySteps exampleOS exampleCli exampleFlags (manifests exampleDir))"
    by blast
  then have applied: "map Args (history (commandRunner
                    (snd (Apply exampleOS exampleCli ''k8s'' exampleDir exampleFlags))))
     = [[''apply'', ''-f'', ''-'', ''--dry-run=client'', ''-n'', ''prod''],
        [''apply'', ''-f'', ''-'', ''--dry-run=client'', ''-n'', ''prod'']]"
    by (simp add: example_steps applyCommand_def f)
  from flagged
  have "getKubeConfigDir exampleOS = Inr ''/home/u/.kube'' \<longrightarrow>
        (\<exists>c. history (commandRunner
                   (snd (ConfigView exampleOS exampleCli True False exampleFlags)))
                = history (commandRunner exampleCli) @ [c]
           \<and> kubectlCommand exampleCli exampleFlags
                ([''config'', ''view''] @ (if True then [''--merge''] else [])
                 @ (if False then [''--flatten''] else [])) c)"
    by blast
  with d c f
  have viewed: "Args (last (history (commandRunner
           (snd (ConfigView exampleOS exampleCli True False exampleFlags)))))
     = [''config'', ''view'', ''--merge'', ''--dry-run=client'', ''-n'', ''prod'']"
    by (auto simp: kubectlCommand_def)
  from flagged
  have "\<exists>c. history (commandRunner (snd (Exec exampleCli exampleFlags [''get'', ''pods''])))
             = history (commandRunner exampleCli) @ [c]
           \<and> kubectlCommand exampleCli exampleFlags [''get'', ''pods''] c"
    by blast
  with c
  have executed: "RunCwd (last (history (commandRunner
                (snd (Exec exampleCli exampleFlags [''get'', ''pods''])))))
     = ''/work''"
    by (auto simp: kubectlCommand_def)
  from plain
  have "\<exists>c. history (commandRunner (snd (RolloutStatus exampleCli ''web'' None)))
             = history (commandRunner exampleCli) @ [c]
           \<and> kubectlCommand exampleCli None [''rollout'', ''status'', ''deployment/'' @ ''web''] c"
    by blast
  with c f
  have rolled: "Cmd (last (history (commandRunner
             (snd (RolloutStatus exampleCli ''web'' None)))))
     = ''kubectl''
   \<and> Args (last (history (commandRunner
             (snd (RolloutStatus exampleCli ''web'' None)))))
     = [''rollout'', ''status'', ''deployment/web'']"
    by (auto simp: kubectlCommand_def)
  from viewed executed rolled moved applied show ?thesis by (intro conjI) simp_all
qed

text \<open>Witness for C10: after \<open>SetEnv\<close>, which commands carry the map.\<close>

theorem C10_env_passing_witness:
  "Env (last (history (commandRunner
          (snd (ApplyWithInput (SetEnv exampleCli [(''A'', ''1'')]) ''kind: Pod'' None)))))
     = Some [''A=1'']
   \<and> Env (last (history (commandRunner
            (snd (ConfigView exampleOS (SetEnv exampleCli [(''A'', ''1'')]) False False None)))))
     = Some [''A=1'']
   \<and> Env (last (history (commandRunner
            (snd (CreateNamespace (SetEnv exampleCli [(''A'', ''1'')]) ''prod'' None)))))
     = None
   \<and> history (commandRunner (SetEnv exampleCli [(''A'', ''1'')])) = []
   \<and> history (commandRunner (Cwd exampleCli ''/tmp'')) = []"
proof -
  have d: "getKubeConfigDir exampleOS = Inr ''/home/u/.kube''"
    by (simp add: exampleOS_def)
  have e: "env (exampleCli\<lparr>env := [(''A'', ''1'')]\<rparr>) = [(''A'', ''1'')]"
    "history (commandRunner exampleCli) = []"
    by (simp_all add: exampleCli_def exampleRunner_def)
  from C10_env_passing
         [where cli = "SetEnv exampleCli [(''A'', ''1'')]" and flags = None
            and os = exampleOS and kubeConfigDir = "''/home/u/.kube''" and name = "''prod''"
            and merge = False and flatten = False and input = "''kind: Pod''"
            and args = "[''create'', ''namespace'', ''prod'']" and secrets = "[]"
            and envValues = "[]" and dir' = "[]"]
       C10_env_passing
         [where cli = exampleCli and envValues = "[(''A'', ''1'')]" and dir' = "''/tmp''"
            and flags = None and os = exampleOS and kubeConfigDir = "''/home/u/.kube''"
            and name = "''prod''" and merge = False and flatten = False
            and input = "''kind: Pod''" and args = "[]" and secrets = "[]"]
       d e
  show ?thesis
    by auto
qed

text \<open>
  Witness for C6: two manifests are applied, a file without the extension is skipped, and
  the third manifest cannot be read.
\<close>

theorem C6_apply_traversal_witness:
  "fst (applySteps exampleOS exampleCli exampleFlags (manifests exampleDir))
     = Some (ErrorString ''permission denied'')
   \<and> reports (fst (Apply exampleOS exampleCli ''k8s'' exampleDir exampleFlags))
              (Some (ErrorString ''permission denied''))
   \<and> map StdIn (history (commandRunner
                  (snd (Apply exampleOS exampleCli ''k8s'' exampleDir exampleFlags))))
     = [Some ''nginx'', Some ''/home/u'']"
  using C6_apply_traversal [of exampleOS exampleCli "''k8s''" exampleDir exampleFlags]
  by (simp add: example_steps applyCommand_def)

subsection \<open>Deployment outputs\<close>

lemma convertOutputs_ok:
  "list_all (\<lambda>kv. hasStringType (snd kv)) kvs \<Longrightarrow>
     convertOutputs (GoMap m) kvs
       = Some (GoMap (m ++ map_of (rev (map (\<lambda>kv. (fst kv, toOutput (snd kv))) kvs))))"
proof (induction kvs arbitrary: m)
  case Nil
  show ?case by simp
next
  case (Cons kv kvs)
  let ?outs = "\<lambda>kvs. map (\<lambda>kv. (fst kv, toOutput (snd kv))) kvs"
  obtain key outp where kv: "kv = (key, outp)" by (cases kv)
  from Cons.prems kv obtain inner ty
    where out: "outp = AnyMap inner" and ty: "map_of inner ''type'' = Some (AnyString ty)"
    by (cases outp) (auto split: option.splits any.splits)
  from Cons.prems have rest: "list_all (\<lambda>kv. hasStringType (snd kv)) kvs" by simp
  from ty have conv: "toOutput outp = \<lparr>Type = ty, OutputValue = index inner ''value''\<rparr>"
    by (simp add: out index_def)
  have "convertOutputs (GoMap m) (kv # kvs)
          = convertOutputs (GoMap (m(key \<mapsto> toOutput outp))) kvs"
    unfolding kv conv by (simp add: out ty index_def)
  also have "\<dots> = Some (GoMap (m(key \<mapsto> toOutput outp) ++ map_of (rev (?outs kvs))))"
    by (rule Cons.IH [OF rest])
  also have "m(key \<mapsto> toOutput outp) ++ map_of (rev (?outs kvs))
               = m ++ map_of (rev (?outs (kv # kvs)))"
    by (rule ext) (simp add: kv map_add_def split: option.splits)
  finally show ?case .
qed

lemma convertOutputs_panics:
  "\<not> list_all (\<lambda>kv. hasStringType (snd kv)) kvs \<Longrightarrow> convertOutputs (GoMap m) kvs = None"
proof (induction kvs arbitrary: m)
  case Nil
  then show ?case by simp
next
  case (Cons kv kvs)
  obtain key outp where kv: "kv = (key, outp)" by (cases kv)
  show ?case
  proof (cases "hasStringType outp")
    case False
    then show ?thesis
      by (cases outp) (auto simp: kv index_def split: option.splits any.splits)
  next
    case True
    then obtain inner ty
      where out: "outp = AnyMap inner" and ty: "map_of inner ''type'' = Some (AnyString ty)"
      by (cases outp) (auto split: option.splits any.splits)
    from Cons.prems True kv have "\<not> list_all (\<lambda>kv. hasStringType (snd kv)) kvs" by simp
    from Cons.IH [OF this] kv out ty show ?thesis
      by (simp add: index_def)
  qed
qed

lemma map_of_rev_distinct:
  "distinct (map fst xs) \<Longrightarrow> map_of (rev xs) = map_of xs"
  by (rule map_of_inject_set [THEN iffD2]) (simp_all add: distinct_rev rev_map [symmetric])

lemma map_of_toOutput:
  "map_of (map (\<lambda>kv. (fst kv, toOutput (snd kv))) kvs) key
     = map_option toOutput (map_of kvs key)"
  by (induction kvs) simp_all

text \<open>
  C9. \<open>CreateDeploymentOutput\<close> gives an empty map that is not nil for the nil
  interface. For any other input it returns, rather than panics, exactly when the input is
  a map from strings to maps that each hold a string under \<^verbatim>\<open>type\<close>
  (\<open>isOutputsMap\<close>); it then returns the map that sends each key to the output made of
  that type and of the entry under \<^verbatim>\<open>value\<close> (the nil interface when there is none).
  It never returns a nil map, and the panic is reachable: a string input panics.
\<close>

theorem C9_create_deployment_output:
  "CreateDeploymentOutput AnyNil = Some (GoMap Map.empty)
   \<and> (rawOutputs \<noteq> AnyNil \<longrightarrow>
        (CreateDeploymentOutput rawOutputs \<noteq> None \<longleftrightarrow> isOutputsMap rawOutputs))
   \<and> (isOutputsMap (AnyMap castInput) \<and> distinct (map fst castInput) \<longrightarrow>
        CreateDeploymentOutput (AnyMap castInput)
          = Some (GoMap (\<lambda>key. map_option toOutput (map_of castInput key))))
   \<and> (map_of innerValue ''type'' = Some (AnyString ty) \<longrightarrow>
        toOutput (AnyMap innerValue) = \<lparr>Type = ty, OutputValue = index innerValue ''value''\<rparr>)
   \<and> CreateDeploymentOutput rawOutputs \<noteq> Some NilMap
   \<and> CreateDeploymentOutput (AnyString ''outputs'') = None"
proof -
  have nil: "CreateDeploymentOutput AnyNil = Some (GoMap Map.empty)"
    by (simp add: CreateDeploymentOutput_def make_map_def)
  have shape: "CreateDeploymentOutput rawOutputs \<noteq> None \<longleftrightarrow> isOutputsMap rawOutputs"
    if "rawOutputs \<noteq> AnyNil"
  proof (cases rawOutputs)
    case (AnyMap m)
    then show ?thesis
      using convertOutputs_ok [of m Map.empty] convertOutputs_panics [of m Map.empty]
      by (cases "list_all (\<lambda>kv. hasStringType (snd kv)) m")
         (simp_all add: CreateDeploymentOutput_def make_map_def)
  qed (use that in \<open>simp_all add: CreateDeploymentOutput_def\<close>)
  have conv: "CreateDeploymentOutput (AnyMap castInput)
                = Some (GoMap (\<lambda>key. map_option toOutput (map_of castInput key)))"
    if ok: "isOutputsMap (AnyMap castInput)" and d: "distinct (map fst castInput)"
  proof -
    let ?outs = "map (\<lambda>kv. (fst kv, toOutput (snd kv))) castInput"
    from d have "distinct (map fst ?outs)" by (simp add: comp_def)
    then have "map_of (rev ?outs) = map_of ?outs" by (rule map_of_rev_distinct)
    moreover have "map_of ?outs = (\<lambda>key. map_option toOutput (map_of castInput key))"
      by (rule ext) (simp add: map_of_toOutput)
    ultimately have "map_of (rev ?outs) = (\<lambda>key. map_option toOutput (map_of castInput key))"
      by simp
    with ok convertOutputs_ok [of castInput Map.empty] show ?thesis
      by (simp add: CreateDeploymentOutput_def make_map_def)
  qed
  have out: "toOutput (AnyMap innerValue) = \<lparr>Type = ty, OutputValue = index innerValue ''value''\<rparr>"
    if "map_of innerValue ''type'' = Some (AnyString ty)"
    using that by (simp add: index_def)
  have nonnil: "CreateDeploymentOutput rawOutputs \<noteq> Some NilMap"
  proof (cases rawOutputs)
    case (AnyMap m)
    then show ?thesis
      using convertOutputs_ok [of m Map.empty] convertOutputs_panics [of m Map.empty]
      by (cases "list_all (\<lambda>kv. hasStringType (snd kv)) m")
         (simp_all add: CreateDeploymentOutput_def make_map_def)
  qed (simp_all add: CreateDeploymentOutput_def make_map_def)
  have panic: "CreateDeploymentOutput (AnyString ''outputs'') = None"
    by (simp add: CreateDeploymentOutput_def)
  from nil shape conv out nonnil panic show ?thesis by blast
qed


text \<open>
  Witness for C9: three outputs of the accepted shape are converted; an output without a
  type panics.
\<close>

theorem C9_create_deployment_output_witness:
  "(case CreateDeploymentOutput exampleOutputs of
      Some (GoMap result) \<Rightarrow>
        result ''url'' = Some \<lparr>Type = ''String'', OutputValue = AnyString ''https://example.org''\<rparr>
        \<and> result ''replicas'' = Some \<lparr>Type = ''Int'', OutputValue = AnyNumber 3\<rparr>
        \<and> result ''empty'' = Some \<lparr>Type = ''Object'', OutputValue = AnyNil\<rparr>
        \<and> result ''other'' = None
    | _ \<Rightarrow> False)
   \<and> CreateDeploymentOutput badOutputs = None"
proof -
  have shape: "exampleOutputs
      = AnyMap [(''url'', AnyMap [(''type'', AnyString ''String''),
                              (''value'', AnyString ''https://example.org'')]),
             (''replicas'', AnyMap [(''value'', AnyNumber 3), (''type'', AnyString ''Int'')]),
             (''empty'', AnyMap [(''type'', AnyString ''Object'')])]"
    by (simp add: exampleOutputs_def)
  have ok: "isOutputsMap exampleOutputs" and bad: "\<not> isOutputsMap badOutputs"
    and nn: "badOutputs \<noteq> AnyNil"
    by (simp_all add: exampleOutputs_def badOutputs_def)
  from C9_create_deployment_output
         [where rawOutputs = badOutputs
            and castInput = "[(''url'', AnyMap [(''type'', AnyString ''String''),
                              (''value'', AnyString ''https://example.org'')]),
             (''replicas'', AnyMap [(''value'', AnyNumber 3), (''type'', AnyString ''Int'')]),
             (''empty'', AnyMap [(''type'', AnyString ''Object'')])]"
            and innerValue = "[(''type'', AnyString ''Object'')]" and ty = "''Object''"]
       ok bad nn
  show ?thesis
    unfolding shape by (simp add: index_def)
qed

subsection \<open>The mock context\<close>

lemma NewMockContext_run:
  "NewMockContext h =
     (let a = fresh h;
          mockContext =
            \<lparr>Credentials = a + 5, Context = a + 6, Console = a + 7, HttpClient = a,
             CoreClientOptions = a + 3, ArmClientOptions = a + 4, CommandRunner = a + 8,
             ConfigManager = a + 1, Container = a + 11, AlphaFeaturesManager = a + 12,
             SubscriptionCredentialProvider = a + 9, MultiTenantCredentialProvider = a + 10,
             Config = a + 2\<rparr>
      in Some (mockContext,
           \<lparr>objects =
              (objects h)
              (a \<mapsto> MockHttpClient, a + 1 \<mapsto> MockConfigManager, a + 2 \<mapsto> EmptyConfig,
               a + 3 \<mapsto> azcore_ClientOptions (Some a), a + 4 \<mapsto> arm_ClientOptions (Some a),
               a + 5 \<mapsto> MockCredentials, a + 6 \<mapsto> ContextValue, a + 7 \<mapsto> MockConsole,
               a + 8 \<mapsto> MockCommandRunner, a + 9 \<mapsto> MockSubscriptionCredentialProvider,
               a + 10 \<mapsto> MockMultiTenantCredentialProvider,
               a + 12 \<mapsto> FeatureManager (a + 2),
               a + 11 \<mapsto> NestedContainer None
                 [(arm_ClientOptions_ptr, ArmClientOptions),
                  (policy_ClientOptions_ptr, CoreClientOptions),
                  (alpha_FeatureManager_ptr, AlphaFeaturesManager),
                  (config_FileConfigManager, ConfigManager),
                  (input_Console, Console),
                  (exec_CommandRunner, CommandRunner),
                  (httputil_HttpClient, HttpClient),
                  (azcore_TokenCredential, Credentials),
                  (ioc_ServiceLocator, Container)]),
            fresh = a + 13\<rparr>))"
  apply (simp add: NewMockContext_def new_def Let_def registerCommonMocks_def
                MustRegisterSingleton_def)
  apply (rule ext)
  apply simp
  done


text \<open>
  C7. From any store, \<open>NewMockContext\<close> returns a mock context whose container resolves
  the token credential, the HTTP client, the command runner, the console and the file
  configuration manager to the mock objects held in the context's fields, and the service
  locator to the container itself; the core and the ARM client options both have the mock
  HTTP client as transport.
\<close>

theorem C7_mock_context_wiring:
  "\<exists>mockContext h'.
     NewMockContext h = Some (mockContext, h')
     \<and> Resolve h' mockContext azcore_TokenCredential = Some (Credentials mockContext)
     \<and> objects h' (Credentials mockContext) = Some MockCredentials
     \<and> Resolve h' mockContext httputil_HttpClient = Some (HttpClient mockContext)
     \<and> objects h' (HttpClient mockContext) = Some MockHttpClient
     \<and> Resolve h' mockContext exec_CommandRunner = Some (CommandRunner mockContext)
     \<and> objects h' (CommandRunner mockContext) = Some MockCommandRunner
     \<and> Resolve h' mockContext input_Console = Some (Console mockContext)
     \<and> objects h' (Console mockContext) = Some MockConsole
     \<and> Resolve h' mockContext config_FileConfigManager = Some (ConfigManager mockContext)
     \<and> objects h' (ConfigManager mockContext) = Some MockConfigManager
     \<and> Resolve h' mockContext ioc_ServiceLocator = Some (Container mockContext)
     \<and> Resolve h' mockContext alpha_FeatureManager_ptr = Some (AlphaFeaturesManager mockContext)
     \<and> Resolve h' mockContext policy_ClientOptions_ptr = Some (CoreClientOptions mockContext)
     \<and> Resolve h' mockContext arm_ClientOptions_ptr = Some (ArmClientOptions mockContext)
     \<and> objects h' (CoreClientOptions mockContext)
         = Some (azcore_ClientOptions (Some (HttpClient mockContext)))
     \<and> objects h' (ArmClientOptions mockContext)
         = Some (arm_ClientOptions (Some (HttpClient mockContext)))"
  by (simp add: NewMockContext_run Let_def Resolve_def)

text \<open>Witness for C7: the addresses from an empty store.\<close>

theorem C7_mock_context_wiring_witness:
  "(case NewMockContext emptyHeap of
      None \<Rightarrow> False
    | Some (mockContext, h') \<Rightarrow>
        HttpClient mockContext = 0 \<and> Credentials mockContext = 5
        \<and> Container mockContext = 11
        \<and> Resolve h' mockContext azcore_TokenCredential = Some 5
        \<and> Resolve h' mockContext httputil_HttpClient = Some 0
        \<and> Resolve h' mockContext ioc_ServiceLocator = Some 11
        \<and> objects h' (CoreClientOptions mockContext) = Some (azcore_ClientOptions (Some 0))
        \<and> objects h' (ArmClientOptions mockContext) = Some (arm_ClientOptions (Some 0)))"
proof -
  from C7_mock_context_wiring [of emptyHeap]
  obtain mockContext h' where new: "NewMockContext emptyHeap = Some (mockContext, h')"
    and wired:
      "Resolve h' mockContext azcore_TokenCredential = Some (Credentials mockContext)"
      "Resolve h' mockContext httputil_HttpClient = Some (HttpClient mockContext)"
      "Resolve h' mockContext ioc_ServiceLocator = Some (Container mockContext)"
      "objects h' (CoreClientOptions mockContext)
         = Some (azcore_ClientOptions (Some (HttpClient mockContext)))"
      "objects h' (ArmClientOptions mockContext)
         = Some (arm_ClientOptions (Some (HttpClient mockContext)))"
    by blast
  from new have "HttpClient mockContext = 0" "Credentials mockContext = 5"
    "Container mockContext = 11"
    by (auto simp: NewMockContext_run Let_def emptyHeap_def)
  with new wired show ?thesis by simp
qed

end
